theory Spec2Isabelle
  imports Complex_Main
begin

chapter \<open>The embedding\<close>

section \<open>Errors and contexts\<close>

text \<open>
  Exceptions are values. \<open>ValueError\<close> and \<open>IndexError\<close> are the ones the program raises itself
  (an embedding of the wrong dimension, a logarithm outside its domain, an index into an empty
  list); \<open>ServiceError\<close> stands for whatever a collaborator raises (the database driver, the
  embedding, chat and rerank services), tagged with the name of the call.
\<close>

datatype error = ValueError | IndexError | ServiceError string

text \<open>\<open>RlsContext\<close> of \<^verbatim>\<open>graph_pg_store.py\<close> and \<^verbatim>\<open>rag_pg_store.py\<close> (a frozen dataclass).\<close>

record RlsContext =
  app_id :: string
  clearance :: int
  request_id :: string

text \<open>
  An embedding is a list of numbers. The components are taken as the values the vector literal
  denotes: the rounding of \<^verbatim>\<open>f"{float(x):.10g}"\<close> is not modelled.
\<close>

type_synonym vec = "rat list"

text \<open>
  \<^verbatim>\<open>GraphPgStore._vec_literal\<close>: \<^verbatim>\<open>embed_dim = getattr(config, "EMBED_DIM", None)\<close>; the
  check is skipped when \<^verbatim>\<open>embed_dim\<close> is falsy.
\<close>

definition vec_literal :: "int \<Rightarrow> vec \<Rightarrow> error + vec" where
  "vec_literal embed_dim v =
     (if embed_dim \<noteq> 0 \<and> int (length v) \<noteq> embed_dim then Inl ValueError else Inr v)"

text \<open>SQL \<^verbatim>\<open>COALESCE(a, b)\<close>.\<close>

definition coalesce :: "'a option \<Rightarrow> 'a option \<Rightarrow> 'a option" where
  "coalesce a b = (case a of Some x \<Rightarrow> Some x | None \<Rightarrow> b)"

text \<open>
  A \<^verbatim>\<open>jsonb\<close> value as the graph store meets it: an array, whose elements are strings or the
  empty object, or the empty object \<^verbatim>\<open>{}\<close> itself.
\<close>

datatype jelem = JString string | JEmpty

datatype jsonb = JArray "jelem list" | JObject

text \<open>
  A Python list bound to \<^verbatim>\<open>%s::jsonb\<close>. \<^verbatim>\<open>graph_pg_store.py\<close> hands the list to the driver
  as it is, with no \<^verbatim>\<open>json.dumps\<close> and no \<^verbatim>\<open>Jsonb\<close> wrapper (\<^verbatim>\<open>rag_pg_store.py\<close> does call
  \<^verbatim>\<open>json.dumps\<close> for its own \<^verbatim>\<open>jsonb\<close> column), and the driver (\<^verbatim>\<open>import psycopg\<close>, version 3)
  sends a list as an array literal. The literal of the empty list is \<^verbatim>\<open>{}\<close>, which the cast
  reads as the empty JSON object; the cast rejects the literal of every other list, and the
  statement raises.
\<close>

definition bind_jsonb :: "string list \<Rightarrow> error + jsonb" where
  "bind_jsonb xs = (if xs = [] then Inr JObject else Inl (ServiceError ''jsonb''))"

section \<open>Graph store: entities\<close>

text \<open>
  A row of table \<^verbatim>\<open>entity\<close>, with the columns the statements of \<^verbatim>\<open>graph_pg_store.py\<close>
  read or write (the audit columns \<^verbatim>\<open>updated_at\<close>, \<^verbatim>\<open>updated_by\<close> are left out). The table is
  the list of its rows. Timestamps are clock readings handed in by the caller of the model
  (\<^verbatim>\<open>now()\<close>), and the id of a fresh row is handed in as well (the column default).
\<close>

record entity =
  entity_id :: string
  e_app_id :: string
  e_name :: string
  e_type :: string
  e_classification :: int
  e_aliases :: jsonb
  e_description :: "string option"
  e_confidence :: string
  e_embedding :: "vec option"
  occurrence_count :: int
  first_occurrence :: nat
  last_occurrence :: nat
  is_active :: bool

text \<open>The conflict target \<^verbatim>\<open>(app_id, name, type, classification)\<close>.\<close>

definition entity_conflict :: "string \<Rightarrow> string \<Rightarrow> string \<Rightarrow> int \<Rightarrow> entity \<Rightarrow> bool" where
  "entity_conflict a n t c r \<longleftrightarrow>
     e_app_id r = a \<and> e_name r = n \<and> e_type r = t \<and> e_classification r = c"

text \<open>The \<^verbatim>\<open>DO UPDATE SET\<close> list of \<^verbatim>\<open>upsert_entity\<close>.\<close>

definition entity_do_update ::
  "nat \<Rightarrow> jsonb \<Rightarrow> string option \<Rightarrow> string \<Rightarrow> vec option \<Rightarrow> entity \<Rightarrow> entity" where
  "entity_do_update now als descr conf emb r =
     r\<lparr>e_aliases := als,
       e_description := coalesce descr (e_description r),
       e_confidence := conf,
       e_embedding := coalesce emb (e_embedding r),
       occurrence_count := occurrence_count r + 1,
       last_occurrence := now,
       is_active := True\<rparr>"

text \<open>The \<^verbatim>\<open>VALUES\<close> list of \<^verbatim>\<open>upsert_entity\<close>.\<close>

definition entity_values ::
  "nat \<Rightarrow> string \<Rightarrow> string \<Rightarrow> string \<Rightarrow> string \<Rightarrow> jsonb \<Rightarrow> string option \<Rightarrow> string \<Rightarrow>
   int \<Rightarrow> vec option \<Rightarrow> entity" where
  "entity_values now new_id a n t als descr conf cls emb =
     \<lparr>entity_id = new_id, e_app_id = a, e_name = n, e_type = t, e_classification = cls,
      e_aliases = als, e_description = descr, e_confidence = conf, e_embedding = emb,
      occurrence_count = 1, first_occurrence = now, last_occurrence = now, is_active = True\<rparr>"

text \<open>The dict \<^verbatim>\<open>upsert_entity\<close> returns, from the \<^verbatim>\<open>RETURNING\<close> clause.\<close>

record entity_row =
  r_entity_id :: string
  r_name :: string
  r_type :: string
  r_confidence :: string
  r_occurrence_count :: int
  r_is_active :: bool

definition returning :: "entity \<Rightarrow> entity_row" where
  "returning r =
     \<lparr>r_entity_id = entity_id r, r_name = e_name r, r_type = e_type r,
      r_confidence = e_confidence r, r_occurrence_count = occurrence_count r,
      r_is_active = is_active r\<rparr>"

text \<open>
  \<^verbatim>\<open>GraphPgStore.upsert_entity\<close>. The arguments before the table are the configured dimension,
  the clock and the fresh id; the result is the returned row and the table after the commit.
  A \<^verbatim>\<open>ValueError\<close> of \<^verbatim>\<open>_vec_literal\<close> is raised before the connection is opened; the alias
  list (\<^verbatim>\<open>aliases or []\<close>) is bound to \<^verbatim>\<open>%s::jsonb\<close> when the statement is executed, and the
  statement writes nothing when that raises.
\<close>

definition upsert_entity ::
  "int \<Rightarrow> nat \<Rightarrow> string \<Rightarrow> entity list \<Rightarrow> RlsContext \<Rightarrow> string \<Rightarrow> string \<Rightarrow> string list option \<Rightarrow>
   string option \<Rightarrow> string \<Rightarrow> int \<Rightarrow> vec option \<Rightarrow> error + (entity_row \<times> entity list)" where
  "upsert_entity embed_dim now new_id tbl ctx name entity_type aliases description confidence
       classification embedding =
     (let als = (case aliases of None \<Rightarrow> [] | Some a \<Rightarrow> a) in
      case (case embedding of None \<Rightarrow> Inr None
            | Some v \<Rightarrow> (case vec_literal embed_dim v of Inl e \<Rightarrow> Inl e | Inr l \<Rightarrow> Inr (Some l))) of
        Inl e \<Rightarrow> Inl e
      | Inr emb_literal \<Rightarrow>
          (case bind_jsonb als of
             Inl e \<Rightarrow> Inl e
           | Inr j \<Rightarrow>
               (case find (entity_conflict (app_id ctx) name entity_type classification) tbl of
                  Some r \<Rightarrow>
                    Inr (returning (entity_do_update now j description confidence emb_literal r),
                         map (\<lambda>x. if entity_conflict (app_id ctx) name entity_type classification x
                                   then entity_do_update now j description confidence emb_literal x
                                   else x) tbl)
                | None \<Rightarrow>
                    (let r = entity_values now new_id (app_id ctx) name entity_type j description
                               confidence classification emb_literal
                     in Inr (returning r, tbl @ [r])))))"

text \<open>\<^verbatim>\<open>GraphPgStore.decrement_entity_occurrence\<close>: \<^verbatim>\<open>GREATEST(occurrence_count - %s, 0)\<close>.\<close>

definition decrement_entity_occurrence ::
  "entity list \<Rightarrow> RlsContext \<Rightarrow> string \<Rightarrow> int \<Rightarrow> entity list" where
  "decrement_entity_occurrence tbl ctx eid dec_count =
     map (\<lambda>r. if e_app_id r = app_id ctx \<and> entity_id r = eid
               then r\<lparr>occurrence_count := max (occurrence_count r - dec_count) 0\<rparr>
               else r) tbl"

text \<open>
  \<^verbatim>\<open>GraphPgStore.deactivate_entities_with_zero_occurrence\<close>: nothing is done for an empty list
  of ids; otherwise the rows of the tenant whose id is listed and whose count is \<^verbatim>\<open><= 0\<close> are
  deactivated.
\<close>

definition deactivate_entities_with_zero_occurrence ::
  "entity list \<Rightarrow> RlsContext \<Rightarrow> string list \<Rightarrow> entity list" where
  "deactivate_entities_with_zero_occurrence tbl ctx entity_ids =
     (if entity_ids = [] then tbl
      else map (\<lambda>r. if e_app_id r = app_id ctx \<and> entity_id r \<in> set entity_ids
                        \<and> occurrence_count r \<le> 0
                     then r\<lparr>is_active := False, e_confidence := ''low''\<rparr>
                     else r) tbl)"

section \<open>Graph store: edges\<close>

text \<open>
  A row of table \<^verbatim>\<open>entity_edge\<close>. The weight is a rational: the weights the program writes
  (\<^verbatim>\<open>0.5\<close> and its sums, capped at \<^verbatim>\<open>1.000\<close>) are exact in binary floating point as well.
  \<^verbatim>\<open>evidence_chunk_ids\<close> is a \<^verbatim>\<open>jsonb\<close> value or SQL \<^verbatim>\<open>NULL\<close> (\<open>None\<close>).
\<close>

record edge =
  ed_app_id :: string
  src_entity_id :: string
  dst_entity_id :: string
  edge_type :: string
  weight :: rat
  ed_confidence :: string
  ed_classification :: int
  evidence_count :: int
  evidence_chunk_ids :: "jsonb option"
  edge_notes :: "string option"

text \<open>The conflict target \<^verbatim>\<open>(app_id, src_entity_id, dst_entity_id, edge_type)\<close>.\<close>

definition edge_conflict :: "string \<Rightarrow> string \<Rightarrow> string \<Rightarrow> string \<Rightarrow> edge \<Rightarrow> bool" where
  "edge_conflict a s d t r \<longleftrightarrow>
     ed_app_id r = a \<and> src_entity_id r = s \<and> dst_entity_id r = d \<and> edge_type r = t"

text \<open>
  \<^verbatim>\<open>a || b\<close> on \<^verbatim>\<open>jsonb\<close>: \<^verbatim>\<open>NULL\<close> when an operand is \<^verbatim>\<open>NULL\<close>; two arrays are
  concatenated; an object next to an array becomes an element of it; two empty objects give the
  empty object.
\<close>

definition jsonb_concat :: "jsonb option \<Rightarrow> jsonb option \<Rightarrow> jsonb option" where
  "jsonb_concat a b =
     (case a of
        None \<Rightarrow> None
      | Some x \<Rightarrow>
          (case b of
             None \<Rightarrow> None
           | Some y \<Rightarrow>
               Some (case x of
                       JArray xs \<Rightarrow> (case y of JArray ys \<Rightarrow> JArray (xs @ ys)
                                     | JObject \<Rightarrow> JArray (xs @ [JEmpty]))
                     | JObject \<Rightarrow> (case y of JArray ys \<Rightarrow> JArray (JEmpty # ys)
                                   | JObject \<Rightarrow> JObject))))"

text \<open>
  \<^verbatim>\<open>jsonb_array_elements(j)\<close>: the elements of an array, no row for \<^verbatim>\<open>NULL\<close>, and an error
  for an object (\<^verbatim>\<open>cannot extract elements from an object\<close>).
\<close>

definition jsonb_array_elements :: "jsonb option \<Rightarrow> error + jelem list" where
  "jsonb_array_elements j =
     (case j of
        None \<Rightarrow> Inr []
      | Some (JArray xs) \<Rightarrow> Inr xs
      | Some JObject \<Rightarrow> Inl (ServiceError ''jsonb_array_elements''))"

text \<open>
  \<^verbatim>\<open>SELECT jsonb_agg(DISTINCT x) FROM ... AS x\<close>: the array of the distinct rows, and
  \<^verbatim>\<open>NULL\<close> over no rows. SQL does not fix the order of the aggregated array; the model keeps
  the order of \<open>remdups\<close>.
\<close>

definition jsonb_agg_distinct :: "jelem list \<Rightarrow> jsonb option" where
  "jsonb_agg_distinct xs = (if xs = [] then None else Some (JArray (remdups xs)))"

text \<open>
  The \<^verbatim>\<open>DO UPDATE SET\<close> list of \<^verbatim>\<open>upsert_edge\<close>, for the stored row and the bound evidence
  value \<^verbatim>\<open>EXCLUDED.evidence_chunk_ids\<close>.
\<close>

definition edge_do_update :: "rat \<Rightarrow> string \<Rightarrow> jsonb \<Rightarrow> string option \<Rightarrow> edge \<Rightarrow> error + edge" where
  "edge_do_update w conf ids notes r =
     (case jsonb_array_elements (jsonb_concat (evidence_chunk_ids r) (Some ids)) of
        Inl e \<Rightarrow> Inl e
      | Inr elems \<Rightarrow>
          Inr (r\<lparr>weight := min (weight r + w) 1,
                 ed_confidence := conf,
                 evidence_count := evidence_count r + 1,
                 evidence_chunk_ids := jsonb_agg_distinct elems,
                 edge_notes := coalesce notes (edge_notes r)\<rparr>))"

text \<open>
  \<^verbatim>\<open>GraphPgStore.upsert_edge\<close> (it returns nothing; the result is the table after the commit,
  or the exception). The evidence list (\<^verbatim>\<open>evidence_chunk_ids or []\<close>) is bound to
  \<^verbatim>\<open>%s::jsonb\<close>; the statement writes nothing when it raises.
\<close>

definition upsert_edge ::
  "edge list \<Rightarrow> RlsContext \<Rightarrow> string \<Rightarrow> string \<Rightarrow> string \<Rightarrow> rat \<Rightarrow> string list option \<Rightarrow> string \<Rightarrow>
   int \<Rightarrow> string option \<Rightarrow> error + edge list" where
  "upsert_edge tbl ctx src dst etype w evidence confidence classification notes =
     (case bind_jsonb (case evidence of None \<Rightarrow> [] | Some l \<Rightarrow> l) of
        Inl e \<Rightarrow> Inl e
      | Inr ids \<Rightarrow>
          (case find (edge_conflict (app_id ctx) src dst etype) tbl of
             None \<Rightarrow>
               Inr (tbl @ [\<lparr>ed_app_id = app_id ctx, src_entity_id = src, dst_entity_id = dst,
                             edge_type = etype, weight = w, ed_confidence = confidence,
                             ed_classification = classification, evidence_count = 1,
                             evidence_chunk_ids = Some ids, edge_notes = notes\<rparr>])
           | Some r \<Rightarrow>
               (case edge_do_update w confidence ids notes r of
                  Inl e \<Rightarrow> Inl e
                | Inr r' \<Rightarrow>
                    Inr (map (\<lambda>x. if edge_conflict (app_id ctx) src dst etype x then r' else x)
                           tbl))))"

text \<open>\<^verbatim>\<open>GraphPgStore.decrement_edge_evidence\<close>: \<^verbatim>\<open>GREATEST(evidence_count - %s, 0)\<close>.\<close>

definition decrement_edge_evidence ::
  "edge list \<Rightarrow> RlsContext \<Rightarrow> string \<Rightarrow> string \<Rightarrow> string \<Rightarrow> int \<Rightarrow> edge list" where
  "decrement_edge_evidence tbl ctx src dst etype dec_count =
     map (\<lambda>r. if edge_conflict (app_id ctx) src dst etype r
               then r\<lparr>evidence_count := max (evidence_count r - dec_count) 0\<rparr>
               else r) tbl"

section \<open>Python strings, lists and dictionaries\<close>

text \<open>
  A Python \<^verbatim>\<open>str\<close> is the list of its code points; the model covers the code points below
  256 (type \<open>char\<close>). \<open>isspace\<close> is \<^verbatim>\<open>str.isspace\<close> on one character of that range: the
  characters \<^verbatim>\<open>strip\<close>, \<^verbatim>\<open>rstrip\<close> and \<^verbatim>\<open>split\<close> without argument treat as whitespace.
\<close>

definition isspace :: "char \<Rightarrow> bool" where
  "isspace c \<longleftrightarrow>
     c \<in> {CHR 0x09, CHR 0x0A, CHR 0x0B, CHR 0x0C, CHR 0x0D, CHR 0x1C, CHR 0x1D, CHR 0x1E,
            CHR 0x1F, CHR 0x20, CHR 0x85, CHR 0xA0}"

definition lstrip :: "string \<Rightarrow> string" where
  "lstrip s = dropWhile isspace s"

definition rstrip :: "string \<Rightarrow> string" where
  "rstrip s = rev (dropWhile isspace (rev s))"

definition strip :: "string \<Rightarrow> string" where
  "strip s = lstrip (rstrip s)"

text \<open>\<^verbatim>\<open>x or ""\<close> for an optional string.\<close>

definition or_empty :: "string option \<Rightarrow> string" where
  "or_empty x = (case x of None \<Rightarrow> [] | Some s \<Rightarrow> s)"

text \<open>
  A \<^verbatim>\<open>dict\<close> is an association list in insertion order: \<^verbatim>\<open>d[k] = v\<close> overwrites in place
  or appends, \<^verbatim>\<open>d.get(k, default)\<close> reads.
\<close>

fun dict_set :: "'k \<Rightarrow> 'v \<Rightarrow> ('k \<times> 'v) list \<Rightarrow> ('k \<times> 'v) list" where
  "dict_set k v [] = [(k, v)]"
| "dict_set k v ((k', v') # d) = (if k' = k then (k, v) # d else (k', v') # dict_set k v d)"

definition dict_get :: "('k \<times> 'v) list \<Rightarrow> 'k \<Rightarrow> 'v \<Rightarrow> 'v" where
  "dict_get d k dflt = (case map_of d k of None \<Rightarrow> dflt | Some v \<Rightarrow> v)"

text \<open>\<^verbatim>\<open>list(dict.fromkeys(xs))\<close>: the first occurrences, in order.\<close>

primrec fromkeys :: "'a list \<Rightarrow> 'a list" where
  "fromkeys [] = []"
| "fromkeys (x # xs) = x # filter (\<lambda>y. y \<noteq> x) (fromkeys xs)"

text \<open>
  \<^verbatim>\<open>for i in range(len(xs)): for j in range(i + 1, len(xs))\<close>: the pairs
  \<^verbatim>\<open>(xs[i], xs[j])\<close> in the order of the loops.
\<close>

primrec pairs :: "'a list \<Rightarrow> ('a \<times> 'a) list" where
  "pairs [] = []"
| "pairs (x # xs) = map (Pair x) xs @ pairs xs"

text \<open>\<^verbatim>\<open>docs.index(d)\<close>, \<open>None\<close> where Python raises \<^verbatim>\<open>ValueError\<close>.\<close>

fun index_of :: "'a \<Rightarrow> 'a list \<Rightarrow> nat option" where
  "index_of x [] = None"
| "index_of x (y # ys) = (if x = y then Some 0 else map_option Suc (index_of x ys))"

text \<open>
  \<^verbatim>\<open>str.splitlines\<close>: the lines of a text without their line breaks; the breaks of the modelled
  range are LF, VT, FF, CR, CR LF, FS, GS, RS and NEL. The first argument collects the current
  line, reversed.
\<close>

definition is_linebreak :: "char \<Rightarrow> bool" where
  "is_linebreak c \<longleftrightarrow>
     c \<in> {CHR 0x0A, CHR 0x0B, CHR 0x0C, CHR 0x0D, CHR 0x1C, CHR 0x1D, CHR 0x1E, CHR 0x85}"

fun splitlines_from :: "string \<Rightarrow> string \<Rightarrow> string list" where
  "splitlines_from cur [] = (if cur = [] then [] else [rev cur])"
| "splitlines_from cur [c] = (if is_linebreak c then [rev cur] else [rev (c # cur)])"
| "splitlines_from cur (c # d # cs) =
     (if c = CHR 0x0D \<and> d = CHR 0x0A then rev cur # splitlines_from [] cs
      else if is_linebreak c then rev cur # splitlines_from [] (d # cs)
      else splitlines_from (c # cur) (d # cs))"

definition splitlines :: "string \<Rightarrow> string list" where
  "splitlines s = splitlines_from [] s"

text \<open>\<^verbatim>\<open>str.split()\<close> without argument: the maximal runs of non-whitespace.\<close>

fun split_from :: "string \<Rightarrow> string \<Rightarrow> string list" where
  "split_from cur [] = (if cur = [] then [] else [rev cur])"
| "split_from cur (c # cs) =
     (if isspace c then (if cur = [] then split_from [] cs else rev cur # split_from [] cs)
      else split_from (c # cur) cs)"

definition split :: "string \<Rightarrow> string list" where
  "split s = split_from [] s"

text \<open>
  \<^verbatim>\<open>s.startswith(p)\<close>, \<^verbatim>\<open>s.endswith(p)\<close>, \<^verbatim>\<open>s.rstrip(chars)\<close>, \<^verbatim>\<open>sep.join(xs)\<close> and the slice
  \<^verbatim>\<open>s[:k]\<close> for an integer \<^verbatim>\<open>k\<close> (a negative \<^verbatim>\<open>k\<close> counts from the end).
\<close>

definition startswith :: "string \<Rightarrow> string \<Rightarrow> bool" where
  "startswith s p \<longleftrightarrow> take (length p) s = p"

definition endswith :: "string \<Rightarrow> string \<Rightarrow> bool" where
  "endswith s p \<longleftrightarrow> length p \<le> length s \<and> drop (length s - length p) s = p"

definition rstrip_chars :: "string \<Rightarrow> string \<Rightarrow> string" where
  "rstrip_chars s chars = rev (dropWhile (\<lambda>c. c \<in> set chars) (rev s))"

fun join :: "string \<Rightarrow> string list \<Rightarrow> string" where
  "join sep [] = []"
| "join sep [x] = x"
| "join sep (x # y # ys) = x @ sep @ join sep (y # ys)"

definition slice_to :: "int \<Rightarrow> 'a list \<Rightarrow> 'a list" where
  "slice_to k s = (if 0 \<le> k then take (nat k) s else take (length s - nat (- k)) s)"

text \<open>
  \<^verbatim>\<open>str(n)\<close> for an integer, and \<^verbatim>\<open>int(s)\<close> for a string, \<open>None\<close> where Python raises
  \<^verbatim>\<open>ValueError\<close>: optional whitespace around, an optional sign, decimal digits, single
  underscores between digits. (The interpreter's limit on the number of digits is left out.)
\<close>

function nat_str :: "nat \<Rightarrow> string" where
  "nat_str n = (if n < 10 then [''0123456789'' ! n]
                else nat_str (n div 10) @ [''0123456789'' ! (n mod 10)])"
  by pat_completeness auto
termination
  by (relation "measure id") auto

definition int_str :: "int \<Rightarrow> string" where
  "int_str i = (if i < 0 then CHR ''-'' # nat_str (nat (- i)) else nat_str (nat i))"

definition is_digit :: "char \<Rightarrow> bool" where
  "is_digit c \<longleftrightarrow> c \<in> set ''0123456789''"

definition digit_val :: "char \<Rightarrow> nat" where
  "digit_val c = (case index_of c ''0123456789'' of Some d \<Rightarrow> d | None \<Rightarrow> 0)"

fun parse_digits :: "nat \<Rightarrow> string \<Rightarrow> nat option" where
  "parse_digits acc [] = Some acc"
| "parse_digits acc [c] = (if is_digit c then Some (acc * 10 + digit_val c) else None)"
| "parse_digits acc (c # d # cs) =
     (if is_digit c then parse_digits (acc * 10 + digit_val c) (d # cs)
      else if c = CHR ''_'' \<and> is_digit d then parse_digits (acc * 10 + digit_val d) cs
      else None)"

definition py_int :: "string \<Rightarrow> int option" where
  "py_int s =
     (let t = strip s;
          neg = (t \<noteq> [] \<and> hd t = CHR ''-'');
          body = (if t \<noteq> [] \<and> (hd t = CHR ''-'' \<or> hd t = CHR ''+'') then tl t else t)
      in case body of
           [] \<Rightarrow> None
         | d # ds \<Rightarrow>
             if is_digit d
             then map_option (\<lambda>n. if neg then - int n else int n) (parse_digits (digit_val d) ds)
             else None)"

section \<open>Graph maintenance worker\<close>

text \<open>
  A job payload as \<^verbatim>\<open>_collect_graph_delete_payload\<close> builds it: the document id, the chunk ids
  and the mention rows of \<^verbatim>\<open>fetch_chunk_entities\<close> (\<^verbatim>\<open>chunk_id::text\<close>,
  \<^verbatim>\<open>entity_id::text\<close>, \<^verbatim>\<open>mention_count\<close>), each field possibly missing or \<^verbatim>\<open>null\<close>.
\<close>

record mention =
  m_entity_id :: "string option"
  m_chunk_id :: "string option"
  m_mention_count :: "int option"

record payload =
  p_doc_id :: string
  p_chunks :: "string list"
  p_mentions :: "mention list option"

datatype job_status = Pending | Running | Done | Failed

record graph_job =
  job_id :: string
  j_app_id :: string
  job_type :: string
  j_payload :: "payload option"
  status :: job_status
  created_at :: nat
  started_at :: "nat option"
  finished_at :: "nat option"
  error_message :: "string option"

text \<open>The tables of the graph store.\<close>

record graph_tables =
  entities :: "entity list"
  edges :: "edge list"
  jobs :: "graph_job list"

text \<open>
  What the loop \<^verbatim>\<open>for m in mentions\<close> of \<^verbatim>\<open>process_graph_jobs_once\<close> reads from one
  mention: \<^verbatim>\<open>eid\<close>, \<^verbatim>\<open>cid\<close> and \<^verbatim>\<open>cnt\<close>. \<^verbatim>\<open>int(m.get("mention_count") or 1)\<close> reads a
  missing, \<^verbatim>\<open>null\<close> or zero count as 1.
\<close>

definition mention_eid :: "mention \<Rightarrow> string" where
  "mention_eid m = strip (or_empty (m_entity_id m))"

definition mention_cid :: "mention \<Rightarrow> string" where
  "mention_cid m = strip (or_empty (m_chunk_id m))"

definition mention_cnt :: "mention \<Rightarrow> int" where
  "mention_cnt m = (case m_mention_count m of None \<Rightarrow> 1 | Some c \<Rightarrow> if c = 0 then 1 else c)"

text \<open>The body of that loop, on the pair \<^verbatim>\<open>(dec_map, chunk_entity_map)\<close>.\<close>

definition collect_mention ::
  "mention \<Rightarrow> (string \<times> int) list \<times> (string \<times> string list) list \<Rightarrow>
   (string \<times> int) list \<times> (string \<times> string list) list" where
  "collect_mention m st =
     (let dec_map = fst st; chunk_entity_map = snd st;
          eid = mention_eid m; cid = mention_cid m; cnt = mention_cnt m
      in if eid = [] then (dec_map, chunk_entity_map)
         else (dict_set eid (dict_get dec_map eid 0 + cnt) dec_map,
               if cid \<noteq> []
               then dict_set cid (dict_get chunk_entity_map cid [] @ [eid]) chunk_entity_map
               else chunk_entity_map))"

text \<open>\<^verbatim>\<open>payload = job.get("payload") or {}\<close>, \<^verbatim>\<open>mentions = payload.get("mentions") or []\<close>.\<close>

definition payload_mentions :: "payload option \<Rightarrow> mention list" where
  "payload_mentions pl =
     (case pl of None \<Rightarrow> [] | Some p \<Rightarrow> (case p_mentions p of None \<Rightarrow> [] | Some ms \<Rightarrow> ms))"

text \<open>The two \<^verbatim>\<open>decrement_edge_evidence\<close> calls for one pair \<^verbatim>\<open>(a, b)\<close>.\<close>

definition decrement_pair :: "RlsContext \<Rightarrow> string \<times> string \<Rightarrow> edge list \<Rightarrow> edge list" where
  "decrement_pair gctx p tbl =
     decrement_edge_evidence
       (decrement_edge_evidence tbl gctx (fst p) (snd p) ''co_occurs'' 1)
       gctx (snd p) (fst p) ''co_occurs'' 1"

text \<open>
  The \<^verbatim>\<open>try\<close> block of \<^verbatim>\<open>process_graph_jobs_once\<close> for one job, up to
  \<^verbatim>\<open>mark_job_done\<close>: the decrements of the entities, the decrements of the co-occurrence edges,
  the deactivation. The statements of the store are taken to succeed, and the typed payload
  leaves no conversion that raises, so the \<^verbatim>\<open>except\<close> branch is not reached here.
\<close>

definition process_payload :: "RlsContext \<Rightarrow> payload option \<Rightarrow> graph_tables \<Rightarrow> graph_tables" where
  "process_payload gctx pl g =
     (let mentions = payload_mentions pl;
          st = fold collect_mention mentions ([], []);
          dec_map = fst st; chunk_entity_map = snd st;
          ents1 = fold (\<lambda>kv t. decrement_entity_occurrence t gctx (fst kv) (snd kv)) dec_map
                    (entities g);
          edges1 = fold (\<lambda>kv t. fold (decrement_pair gctx)
                                   (pairs (fromkeys (filter (\<lambda>x. x \<noteq> []) (snd kv)))) t)
                     chunk_entity_map (edges g);
          ents2 = deactivate_entities_with_zero_occurrence ents1 gctx (map fst dec_map)
      in g\<lparr>entities := ents2, edges := edges1\<rparr>)"

text \<open>
  \<^verbatim>\<open>GraphPgStore.fetch_pending_jobs\<close> with no other claimant at work: the pending jobs of the
  tenant, oldest first, at most \<^verbatim>\<open>limit\<close> of them, are returned and set to \<^verbatim>\<open>running\<close>.
\<close>

definition fetch_pending_jobs ::
  "nat \<Rightarrow> graph_job list \<Rightarrow> RlsContext \<Rightarrow> nat \<Rightarrow> graph_job list \<times> graph_job list" where
  "fetch_pending_jobs now tbl ctx limit =
     (let rows = take limit (sort_key created_at
                   (filter (\<lambda>j. j_app_id j = app_id ctx \<and> status j = Pending) tbl))
      in (rows,
          map (\<lambda>j. if job_id j \<in> set (map job_id rows)
                    then j\<lparr>status := Running, started_at := Some now\<rparr> else j) tbl))"

text \<open>\<^verbatim>\<open>GraphPgStore.mark_job_done\<close>.\<close>

definition mark_job_done ::
  "nat \<Rightarrow> graph_job list \<Rightarrow> RlsContext \<Rightarrow> string \<Rightarrow> bool \<Rightarrow> string option \<Rightarrow> graph_job list" where
  "mark_job_done now tbl ctx jid success err =
     map (\<lambda>j. if j_app_id j = app_id ctx \<and> job_id j = jid
               then j\<lparr>status := (if success then Done else Failed), finished_at := Some now,
                      error_message := err\<rparr>
               else j) tbl"

text \<open>
  \<^verbatim>\<open>process_graph_jobs_once\<close>: the number of jobs claimed and the tables afterwards.
\<close>

definition process_graph_jobs_once ::
  "nat \<Rightarrow> graph_tables \<Rightarrow> RlsContext \<Rightarrow> nat \<Rightarrow> nat \<times> graph_tables" where
  "process_graph_jobs_once now g gctx limit =
     (let claimed = fetch_pending_jobs now (jobs g) gctx limit;
          g1 = g\<lparr>jobs := snd claimed\<rparr>
      in (length (fst claimed),
          fold (\<lambda>job t. (process_payload gctx (j_payload job) t)
                           \<lparr>jobs := mark_job_done now (jobs t) gctx (job_id job) True None\<rparr>)
               (fst claimed) g1))"

section \<open>Chunk store\<close>

text \<open>
  A row of table \<^verbatim>\<open>chunks\<close> with the columns the queries read, and a hit: the dict the store
  returns for a chunk (\<^verbatim>\<open>h.get(key)\<close> is \<open>None\<close> for a missing or \<^verbatim>\<open>None\<close> value;
  \<^verbatim>\<open>score\<close> is there only with \<^verbatim>\<open>return_with_scores\<close>). Numbers the program holds as floats
  are rationals here.
\<close>

record chunk =
  c_chunk_id :: string
  c_doc_id :: string
  c_version_id :: string
  c_app_id :: string
  c_chunk_text :: "string option"
  c_embedding :: "vec option"

record hit =
  chunk_id :: "string option"
  doc_id :: "string option"
  version_id :: "string option"
  chunk_text :: "string option"
  score :: "rat option"

text \<open>The row \<^verbatim>\<open>search_chunks\<close> inserts into \<^verbatim>\<open>audit_search\<close>.\<close>

record audit_search =
  a_app_id :: string
  a_clearance :: int
  a_request_id :: string
  a_query_text :: string
  a_top_k :: int
  a_hit_chunk_ids :: "string list option"
  a_hit_doc_ids :: "string list option"
  a_score_min :: "rat option"
  a_score_max :: "rat option"

text \<open>\<^verbatim>\<open>RagPgStore._vec_literal\<close>: the dimension is always checked.\<close>

definition rag_vec_literal :: "int \<Rightarrow> vec \<Rightarrow> error + vec" where
  "rag_vec_literal embed_dim v =
     (if int (length v) \<noteq> embed_dim then Inl ValueError else Inr v)"

text \<open>
  The inner \<^verbatim>\<open>SELECT\<close> of \<^verbatim>\<open>search_chunks\<close>: the rows with an embedding, each with
  \<^verbatim>\<open>bscore = c.embedding <-> qv\<close>. The distance operator of the vector extension is the
  parameter \<open>distance\<close>. The query names no tenant: the table is the one the context sees under the
  row-level policies of the database.
\<close>

definition scored_rows :: "(vec \<Rightarrow> vec \<Rightarrow> rat) \<Rightarrow> chunk list \<Rightarrow> vec \<Rightarrow> (chunk \<times> rat) list" where
  "scored_rows distance tbl qv =
     List.map_filter
       (\<lambda>c. case c_embedding c of None \<Rightarrow> None | Some e \<Rightarrow> Some (c, distance e qv)) tbl"

text \<open>
  \<^verbatim>\<open>ORDER BY t.bscore LIMIT %s\<close>. SQL leaves the order of rows with equal \<^verbatim>\<open>bscore\<close> open;
  the model keeps them in table order.
\<close>

definition nearest_rows ::
  "(vec \<Rightarrow> vec \<Rightarrow> rat) \<Rightarrow> chunk list \<Rightarrow> vec \<Rightarrow> nat \<Rightarrow> (chunk \<times> rat) list" where
  "nearest_rows distance tbl qv k = take k (sort_key snd (scored_rows distance tbl qv))"

text \<open>\<^verbatim>\<open>if top_k is None or int(top_k) <= 0: top_k = 5\<close>.\<close>

definition effective_top_k :: "int option \<Rightarrow> int" where
  "effective_top_k top_k = (case top_k of None \<Rightarrow> 5 | Some k \<Rightarrow> if k \<le> 0 then 5 else k)"

text \<open>\<^verbatim>\<open>x or None\<close> for a list; \<^verbatim>\<open>min(scores) if scores else None\<close> and the same for max.\<close>

definition or_none :: "'a list \<Rightarrow> 'a list option" where
  "or_none xs = (if xs = [] then None else Some xs)"

definition min_or_none :: "rat list \<Rightarrow> rat option" where
  "min_or_none xs = (case xs of [] \<Rightarrow> None | y # ys \<Rightarrow> Some (fold min ys y))"

definition max_or_none :: "rat list \<Rightarrow> rat option" where
  "max_or_none xs = (case xs of [] \<Rightarrow> None | y # ys \<Rightarrow> Some (fold max ys y))"

text \<open>The dict \<^verbatim>\<open>search_chunks\<close> builds for one row.\<close>

definition row_hit :: "bool \<Rightarrow> chunk \<times> rat \<Rightarrow> hit" where
  "row_hit return_with_scores r =
     \<lparr>chunk_id = Some (c_chunk_id (fst r)), doc_id = Some (c_doc_id (fst r)),
      version_id = Some (c_version_id (fst r)), chunk_text = c_chunk_text (fst r),
      score = (if return_with_scores then Some (snd r) else None)\<rparr>"

text \<open>
  \<^verbatim>\<open>RagPgStore.search_chunks\<close>: the hits and the audit row written in the same transaction.
  \<open>embed_dim\<close> is \<^verbatim>\<open>cfg.embed_dim\<close>.
\<close>

definition search_chunks ::
  "(vec \<Rightarrow> vec \<Rightarrow> rat) \<Rightarrow> int \<Rightarrow> chunk list \<Rightarrow> RlsContext \<Rightarrow> string \<Rightarrow> vec \<Rightarrow> int option \<Rightarrow> bool \<Rightarrow>
   error + (hit list \<times> audit_search)" where
  "search_chunks distance embed_dim tbl ctx query_text query_embedding top_k return_with_scores =
     (let k = effective_top_k top_k in
      case rag_vec_literal embed_dim query_embedding of
        Inl e \<Rightarrow> Inl e
      | Inr qv \<Rightarrow>
          (let rows = nearest_rows distance tbl qv (nat k);
               chunk_ids = map (\<lambda>r. c_chunk_id (fst r)) rows;
               doc_ids = map (\<lambda>r. c_doc_id (fst r)) rows;
               scores = map snd rows
           in Inr (map (row_hit return_with_scores) rows,
                   \<lparr>a_app_id = app_id ctx, a_clearance = clearance ctx,
                    a_request_id = request_id ctx, a_query_text = query_text, a_top_k = k,
                    a_hit_chunk_ids = or_none chunk_ids, a_hit_doc_ids = or_none doc_ids,
                    a_score_min = min_or_none scores, a_score_max = max_or_none scores\<rparr>)))"

text \<open>
  \<^verbatim>\<open>RagPgStore.get_chunks_by_ids\<close>: the rows of the tenant whose id is listed, ordered by
  \<^verbatim>\<open>array_position\<close>, the first place of the id in the list. The ids are taken to be well
  formed (the cast \<^verbatim>\<open>%s::uuid[]\<close> succeeds).
\<close>

definition get_chunks_by_ids :: "chunk list \<Rightarrow> RlsContext \<Rightarrow> string list \<Rightarrow> hit list" where
  "get_chunks_by_ids tbl ctx chunk_ids =
     (let ids = filter (\<lambda>x. x \<noteq> []) chunk_ids in
      if ids = [] then []
      else map (\<lambda>c. \<lparr>chunk_id = Some (c_chunk_id c), doc_id = Some (c_doc_id c),
                      version_id = Some (c_version_id c), chunk_text = c_chunk_text c,
                      score = None\<rparr>)
             (sort_key (\<lambda>c. case index_of (c_chunk_id c) ids of Some i \<Rightarrow> i | None \<Rightarrow> 0)
                (filter (\<lambda>c. c_app_id c = app_id ctx \<and> c_chunk_id c \<in> set ids) tbl)))"

section \<open>Chunk headers and the merge pass\<close>

text \<open>
  \<^verbatim>\<open>config.META_PREFIX\<close>, and the values a header dict holds: strings, and an integer for a
  page that parses as one.
\<close>

definition META_PREFIX :: string where
  "META_PREFIX = ''[[META''"

datatype pyval = PStr string | PInt int

text \<open>\<^verbatim>\<open>str(v)\<close>, also what an f-string prints; \<^verbatim>\<open>None\<close> prints as \<^verbatim>\<open>None\<close>.\<close>

definition py_str :: "pyval option \<Rightarrow> string" where
  "py_str v = (case v of None \<Rightarrow> ''None'' | Some (PStr s) \<Rightarrow> s | Some (PInt i) \<Rightarrow> int_str i)"



text \<open>
  \<^verbatim>\<open>parse_meta_header\<close>. \<^verbatim>\<open>text.splitlines()[0]\<close> raises \<^verbatim>\<open>IndexError\<close> on an empty list
  of lines. A token with \<^verbatim>\<open>=\<close> is split at the first one; a later token overwrites an
  earlier one with the same key; \<^verbatim>\<open>page\<close> is replaced by its integer when \<^verbatim>\<open>int\<close> accepts it.
\<close>

definition add_token :: "string \<Rightarrow> (string \<times> pyval) list \<Rightarrow> (string \<times> pyval) list" where
  "add_token token meta =
     (if CHR ''='' \<in> set token
      then dict_set (strip (takeWhile (\<lambda>c. c \<noteq> CHR ''='') token))
             (PStr (strip (tl (dropWhile (\<lambda>c. c \<noteq> CHR ''='') token)))) meta
      else meta)"

definition page_to_int :: "(string \<times> pyval) list \<Rightarrow> (string \<times> pyval) list" where
  "page_to_int meta =
     (case map_of meta ''page'' of
        None \<Rightarrow> meta
      | Some v \<Rightarrow> (case py_int (py_str (Some v)) of
                     None \<Rightarrow> meta
                   | Some i \<Rightarrow> dict_set ''page'' (PInt i) meta))"

definition parse_meta_header :: "string \<Rightarrow> error + (string \<times> pyval) list" where
  "parse_meta_header text =
     (if text = [] then Inr []
      else case splitlines text of
             [] \<Rightarrow> Inl IndexError
           | l # _ \<Rightarrow>
               (let first = strip l in
                if \<not> (startswith first META_PREFIX \<and> endswith first '']]'') then Inr []
                else (let inside = strip (rstrip_chars (drop (length META_PREFIX) first) '']]'')
                      in Inr (page_to_int (fold add_token (split inside) [])))))"

text \<open>
  The grouping key of \<^verbatim>\<open>merge_hits_by_page_or_caption\<close> for a parsed header:
  \<^verbatim>\<open>t = meta.get("type", "")\<close>, \<^verbatim>\<open>page = meta.get("page", None)\<close>,
  \<^verbatim>\<open>caption = meta.get("caption", "")\<close>.
\<close>

definition merge_key :: "(string \<times> pyval) list \<Rightarrow> string" where
  "merge_key meta =
     (let t = dict_get meta ''type'' (PStr []);
          page = map_of meta ''page'';
          caption = dict_get meta ''caption'' (PStr [])
      in if t = PStr ''table'' \<or> t = PStr ''figure''
         then (if caption \<noteq> PStr []
               then py_str (Some t) @ '':'' @ py_str page @ '':'' @ py_str (Some caption)
               else py_str (Some t) @ '':'' @ py_str page)
         else ''text:'' @ py_str page)"

text \<open>
  The text a later member of a group adds: its first line is dropped when it starts with the
  prefix, and the rest is joined again and stripped (\<open>drop_meta_line\<close>); the text of the group
  becomes \<^verbatim>\<open>(cur_txt.rstrip() + "\n\n" + add_txt).strip()\<close> (\<open>append_text\<close>).
\<close>

definition drop_meta_line :: "string \<Rightarrow> string" where
  "drop_meta_line txt =
     (case splitlines txt of
        [] \<Rightarrow> txt
      | l # ls \<Rightarrow> if startswith l META_PREFIX then strip (join [CHR 0x0A] ls) else txt)"

text \<open>
  The loop of \<^verbatim>\<open>merge_hits_by_page_or_caption\<close>. \<^verbatim>\<open>seen\<close> and \<^verbatim>\<open>merged\<close> share their dicts:
  \<^verbatim>\<open>seen\<close> maps a key to the place of its dict in \<^verbatim>\<open>merged\<close>, and the update of
  \<^verbatim>\<open>cur["chunk_text"]\<close> is an update at that place.
\<close>

definition append_text :: "string \<Rightarrow> string \<Rightarrow> string" where
  "append_text cur_txt txt = strip (rstrip cur_txt @ [CHR 0x0A, CHR 0x0A] @ drop_meta_line txt)"

definition merge_step ::
  "hit \<Rightarrow> (string \<times> nat) list \<times> hit list \<Rightarrow> error + (string \<times> nat) list \<times> hit list" where
  "merge_step h st =
     (let seen = fst st; merged = snd st; txt = or_empty (chunk_text h) in
      case parse_meta_header txt of
        Inl e \<Rightarrow> Inl e
      | Inr meta \<Rightarrow>
          (let key = merge_key meta in
           case map_of seen key of
             None \<Rightarrow> Inr (dict_set key (length merged) seen, merged @ [h])
           | Some i \<Rightarrow>
               (let cur = merged ! i;
                    cur_txt = or_empty (chunk_text cur)
                in Inr (seen, merged[i := cur\<lparr>chunk_text := Some (append_text cur_txt txt)\<rparr>]))))"

fun merge_loop ::
  "hit list \<Rightarrow> (string \<times> nat) list \<times> hit list \<Rightarrow> error + (string \<times> nat) list \<times> hit list" where
  "merge_loop [] st = Inr st"
| "merge_loop (h # hs) st =
     (case merge_step h st of Inl e \<Rightarrow> Inl e | Inr st' \<Rightarrow> merge_loop hs st')"

text \<open>The cap on the merged text: \<^verbatim>\<open>h["chunk_text"][:max_chars] + "\n...(merged truncated)"\<close>.\<close>

definition cap_text :: "int \<Rightarrow> hit \<Rightarrow> hit" where
  "cap_text max_chars h =
     (case chunk_text h of
        None \<Rightarrow> h
      | Some t \<Rightarrow>
          if t \<noteq> [] \<and> int (length t) > max_chars
          then h\<lparr>chunk_text := Some (slice_to max_chars t @ CHR 0x0A # ''...(merged truncated)'')\<rparr>
          else h)"

text \<open>
  \<^verbatim>\<open>merge_hits_by_page_or_caption\<close>; \<open>max_chars\<close> is
  \<^verbatim>\<open>int(getattr(config, "PRE_RERANK_MERGE_MAX_CHARS", 14000))\<close>.
\<close>

definition merge_hits_by_page_or_caption :: "int \<Rightarrow> hit list \<Rightarrow> error + hit list" where
  "merge_hits_by_page_or_caption max_chars hits =
     (if hits = [] then Inr hits
      else case merge_loop hits ([], []) of
             Inl e \<Rightarrow> Inl e
           | Inr st \<Rightarrow> Inr (map (cap_text max_chars) (snd st)))"

section \<open>Rerank client\<close>

text \<open>An entry of the \<^verbatim>\<open>results\<close> list of the rerank service.\<close>

record rerank_item =
  ri_doc :: "string option"
  ri_score :: "rat option"

text \<open>
  \<^verbatim>\<open>rerank_results\<close>: nothing is sent for an empty list of documents; otherwise the result is
  that of the request, the argument \<open>post\<close>: the \<^verbatim>\<open>results\<close> of the answer, or the exception of
  \<^verbatim>\<open>requests.post\<close>, \<^verbatim>\<open>raise_for_status\<close> or \<^verbatim>\<open>r.json()\<close>.
\<close>

definition rerank_results ::
  "(string \<Rightarrow> string option list \<Rightarrow> int \<Rightarrow> error + rerank_item list) \<Rightarrow> string \<Rightarrow> string option list \<Rightarrow>
   int \<Rightarrow> error + rerank_item list" where
  "rerank_results post query docs top_k = (if docs = [] then Inr [] else post query docs top_k)"

text \<open>
  The loop of \<^verbatim>\<open>rerank_hits\<close> over the results: \<^verbatim>\<open>order\<close> collects the places of the
  documents, and \<^verbatim>\<open>used\<close> is the set of the places in \<^verbatim>\<open>order\<close>.
\<close>

fun rerank_order :: "rat option \<Rightarrow> string option list \<Rightarrow> rerank_item list \<Rightarrow> nat list \<Rightarrow> nat list" where
  "rerank_order min_score docs [] order = order"
| "rerank_order min_score docs (item # items) order =
     (case ri_doc item of
        None \<Rightarrow> rerank_order min_score docs items order
      | Some d \<Rightarrow>
          if (case min_score of
                None \<Rightarrow> False
              | Some ms \<Rightarrow> (case ri_score item of None \<Rightarrow> False | Some sc \<Rightarrow> sc < ms))
          then rerank_order min_score docs items order
          else (case index_of (Some d) docs of
                  None \<Rightarrow> rerank_order min_score docs items order
                | Some i \<Rightarrow>
                    if i \<in> set order then rerank_order min_score docs items order
                    else rerank_order min_score docs items (order @ [i])))"

text \<open>
  \<^verbatim>\<open>rerank_hits\<close>; \<open>min_score\<close> is \<^verbatim>\<open>getattr(config, "RERANK_MIN_SCORE", None)\<close>. The function
  has no \<^verbatim>\<open>try\<close>: an exception of the request leaves it as it is.
\<close>

definition rerank_hits ::
  "(string \<Rightarrow> string option list \<Rightarrow> int \<Rightarrow> error + rerank_item list) \<Rightarrow> rat option \<Rightarrow> string \<Rightarrow>
   hit list \<Rightarrow> int \<Rightarrow> error + hit list" where
  "rerank_hits post min_score query hits top_k =
     (if hits = [] then Inr hits
      else (let docs = map chunk_text hits in
            case rerank_results post query docs top_k of
              Inl e \<Rightarrow> Inl e
            | Inr results \<Rightarrow>
                (let order = rerank_order min_score docs results [];
                     order' = (if min_score = None
                               then order @ filter (\<lambda>i. i \<notin> set order) [0..<length docs]
                               else if order = [] then [0..<length docs] else order)
                 in Inr (map (\<lambda>i. hits ! i) (filter (\<lambda>i. i < length hits) order')))))"

section \<open>Hybrid retrieval\<close>

text \<open>
  The collaborators of the retrieval step of \<^verbatim>\<open>chat_send\<close>, each as the call the pipeline
  makes: its result, or the exception it raises. \<open>call_chat\<close> is \<^verbatim>\<open>call_vllm_chat\<close> with the
  system prompt and the user text; \<open>json_entities\<close> is the decoding of the answer
  (\<^verbatim>\<open>_safe_json_from_text\<close> and the checks that keep the dicts of a list or a single dict);
  \<open>math_log\<close> is the float \<^verbatim>\<open>math.log\<close> returns for a positive integer.
\<close>

record raw_entity =
  raw_name :: "string option"
  raw_type :: "string option"
  raw_aliases :: "string list option"
  raw_confidence :: "string option"

record q_entity =
  q_name :: string
  q_type :: string
  q_aliases :: "string list"
  q_confidence :: string

record entity_match =
  em_entity_id :: "string option"
  em_name :: "string option"
  em_occurrence_count :: "int option"

record neighbor =
  dst_name :: "string option"

record services =
  call_chat :: "string \<Rightarrow> string \<Rightarrow> error + string"
  json_entities :: "string \<Rightarrow> raw_entity list"
  call_embed_text :: "string \<Rightarrow> error + vec"
  call_find_entities_by_name_or_alias :: "string \<Rightarrow> nat \<Rightarrow> error + entity_match list"
  call_find_entities_by_embedding :: "vec \<Rightarrow> nat \<Rightarrow> rat option \<Rightarrow> error + (entity_match \<times> rat) list"
  call_get_neighbor_entities :: "string list \<Rightarrow> nat \<Rightarrow> error + neighbor list"
  call_list_chunk_ids_by_entities :: "string list \<Rightarrow> int \<Rightarrow> error + string list"
  call_get_chunks_by_ids :: "string list \<Rightarrow> error + hit list"
  call_search_chunks :: "string \<Rightarrow> vec \<Rightarrow> int \<Rightarrow> error + hit list"
  call_rerank :: "string \<Rightarrow> string option list \<Rightarrow> int \<Rightarrow> error + rerank_item list"
  math_log :: "int \<Rightarrow> rat"

text \<open>
  The values of \<^verbatim>\<open>config\<close> the step reads. \<open>context_cut_marker\<close> is the marker appended to a
  context that is cut; its characters lie outside the modelled range.
\<close>

record settings =
  GRAPH_ENTITY_PROMPTS :: "(string \<times> string) list"
  GRAPH_ENTITY_PROMPT_DEFAULT :: string
  GRAPH_ENTITY_MIN_SIM :: "rat option"
  RERANK_CANDIDATES :: int
  VECTOR_CHUNK_CANDIDATES :: int
  GRAPH_CHUNK_CANDIDATES :: int
  RERANK_ENABLED :: bool
  RERANK_MIN_SCORE :: "rat option"
  PDF_TOP_K_CHUNKS :: int
  PRE_RERANK_MERGE_MAX_CHARS :: int
  MAX_PDF_CONTEXT_CHARS :: int
  context_cut_marker :: string

text \<open>\<^verbatim>\<open>str.lower\<close> on the modelled range: the capital letters of ASCII and Latin-1.\<close>

definition lower_char :: "char \<Rightarrow> char" where
  "lower_char c =
     (let n = (of_char c :: nat)
      in if (65 \<le> n \<and> n \<le> 90) \<or> (192 \<le> n \<and> n \<le> 214) \<or> (216 \<le> n \<and> n \<le> 222)
         then char_of (n + 32) else c)"

definition lower :: "string \<Rightarrow> string" where
  "lower s = map lower_char s"

text \<open>
  The loop of \<^verbatim>\<open>_extract_entities_from_text\<close> over the decoded items, with its cap of 12
  entities.
\<close>

fun collect_entities :: "raw_entity list \<Rightarrow> q_entity list \<Rightarrow> q_entity list" where
  "collect_entities [] out = out"
| "collect_entities (item # items) out =
     (let name = strip (or_empty (raw_name item));
          etype = strip (or_empty (raw_type item))
      in if name = [] \<or> etype = [] then collect_entities items out
         else (let aliases = (case raw_aliases item of None \<Rightarrow> [] | Some a \<Rightarrow> a);
                   conf = lower (strip (case raw_confidence item of
                                          None \<Rightarrow> ''medium''
                                        | Some c \<Rightarrow> if c = [] then ''medium'' else c));
                   conf' = (if conf = ''high'' \<or> conf = ''medium'' \<or> conf = ''low''
                            then conf else ''medium'');
                   out' = out @ [\<lparr>q_name = name, q_type = etype, q_aliases = aliases,
                                   q_confidence = conf'\<rparr>]
               in if length out' \<ge> 12 then out' else collect_entities items out'))"

text \<open>
  \<^verbatim>\<open>_extract_entities_from_text\<close> (without \<^verbatim>\<open>prompt_text\<close>, which \<^verbatim>\<open>chat_send\<close> does not
  pass). An exception of the chat call is caught here and gives the empty list.
\<close>

definition extract_entities_from_text ::
  "services \<Rightarrow> settings \<Rightarrow> string \<Rightarrow> string option \<Rightarrow> q_entity list" where
  "extract_entities_from_text svc cfg text prompt_key =
     (if strip text = [] then []
      else (let dflt = (if GRAPH_ENTITY_PROMPT_DEFAULT cfg \<noteq> []
                        then GRAPH_ENTITY_PROMPT_DEFAULT cfg else ''strict'');
                key = strip (case prompt_key of
                               None \<Rightarrow> dflt
                             | Some k \<Rightarrow> if k \<noteq> [] then k else dflt);
                strict = dict_get (GRAPH_ENTITY_PROMPTS cfg) ''strict'' [];
                prompt = (case map_of (GRAPH_ENTITY_PROMPTS cfg) key of
                            None \<Rightarrow> strict
                          | Some p \<Rightarrow> if p \<noteq> [] then p else strict)
            in case call_chat svc prompt (strip text) of
                 Inl e \<Rightarrow> []
               | Inr raw \<Rightarrow> collect_entities (json_entities svc raw) []))"

text \<open>
  \<^verbatim>\<open>_find_entities_hybrid\<close>. \<^verbatim>\<open>math.log\<close> raises \<^verbatim>\<open>ValueError\<close> outside its
  domain. The loop over the exact matches is not guarded; the
  embedding recall is inside a \<^verbatim>\<open>try\<close>, which keeps the results collected so far.
\<close>

fun exact_matches ::
  "(int \<Rightarrow> rat) \<Rightarrow> entity_match list \<Rightarrow> (string \<times> entity_match \<times> rat) list \<Rightarrow>
   error + (string \<times> entity_match \<times> rat) list" where
  "exact_matches logf [] results = Inr results"
| "exact_matches logf (r # rs) results =
     (case em_entity_id r of
        None \<Rightarrow> exact_matches logf rs results
      | Some eid \<Rightarrow>
          if eid = [] then exact_matches logf rs results
          else (let occ = (case em_occurrence_count r of None \<Rightarrow> 0 | Some n \<Rightarrow> n)
                in if occ + 1 \<le> 0 then Inl ValueError
                   else exact_matches logf rs
                          (dict_set eid (r, 1 + 2 / 10 * logf (occ + 1)) results)))"

fun semantic_matches ::
  "(int \<Rightarrow> rat) \<Rightarrow> (entity_match \<times> rat) list \<Rightarrow> (string \<times> entity_match \<times> rat) list \<Rightarrow>
   (string \<times> entity_match \<times> rat) list" where
  "semantic_matches logf [] results = results"
| "semantic_matches logf (p # ps) results =
     (case em_entity_id (fst p) of
        None \<Rightarrow> semantic_matches logf ps results
      | Some eid \<Rightarrow>
          if eid = [] \<or> map_of results eid \<noteq> None then semantic_matches logf ps results
          else (let occ = (case em_occurrence_count (fst p) of None \<Rightarrow> 0 | Some n \<Rightarrow> n)
                in if occ + 1 \<le> 0 then results
                   else semantic_matches logf ps
                          (dict_set eid
                             (fst p, 7 / 10 * snd p + 2 / 10 * logf (occ + 1))
                             results)))"

definition find_entities_hybrid ::
  "services \<Rightarrow> settings \<Rightarrow> string \<Rightarrow> nat \<Rightarrow> error + (entity_match \<times> rat) list" where
  "find_entities_hybrid svc cfg query_text limit =
     (case call_find_entities_by_name_or_alias svc query_text limit of
        Inl e \<Rightarrow> Inl e
      | Inr matches \<Rightarrow>
          (case exact_matches (math_log svc) matches [] of
             Inl e \<Rightarrow> Inl e
           | Inr results \<Rightarrow>
               (let results' =
                      (if length results < limit
                       then (case call_embed_text svc query_text of
                               Inl e \<Rightarrow> results
                             | Inr q_emb \<Rightarrow>
                                 (case call_find_entities_by_embedding svc q_emb limit
                                         (GRAPH_ENTITY_MIN_SIM cfg) of
                                    Inl e \<Rightarrow> results
                                  | Inr sem \<Rightarrow> semantic_matches (math_log svc) sem results))
                       else results)
                in Inr (take limit (rev (sort_key snd (rev (map snd results'))))))))"

text \<open>
  The graph part of the \<^verbatim>\<open>try\<close> block of \<^verbatim>\<open>chat_send\<close>: the seeds, the neighbours, the
  augmented query text and the graph-path hits. No call to the graph store or to the chunk
  store is guarded here.
\<close>

definition seed_match ::
  "entity_match \<times> rat \<Rightarrow> string list \<times> string list \<Rightarrow> string list \<times> string list" where
  "seed_match m st =
     (case em_entity_id (fst m) of
        None \<Rightarrow> st
      | Some mid \<Rightarrow> if mid = [] then st
                    else (fst st @ [mid], snd st @ [or_empty (em_name (fst m))]))"

fun seed_loop ::
  "services \<Rightarrow> settings \<Rightarrow> q_entity list \<Rightarrow> string list \<times> string list \<Rightarrow>
   error + string list \<times> string list" where
  "seed_loop svc cfg [] st = Inr st"
| "seed_loop svc cfg (ent # ents) st =
     (case find_entities_hybrid svc cfg (q_name ent) 3 of
        Inl e \<Rightarrow> Inl e
      | Inr matches \<Rightarrow> seed_loop svc cfg ents (fold seed_match matches st))"

definition graph_path ::
  "services \<Rightarrow> settings \<Rightarrow> string \<Rightarrow> string option \<Rightarrow> error + string \<times> hit list" where
  "graph_path svc cfg user_text graph_prompt_key =
     (case seed_loop svc cfg (extract_entities_from_text svc cfg user_text graph_prompt_key)
             ([], []) of
        Inl e \<Rightarrow> Inl e
      | Inr seeds \<Rightarrow>
          (let seed_ids = fst seeds; seed_names = snd seeds in
           case (if seed_ids \<noteq> [] then call_get_neighbor_entities svc seed_ids 10 else Inr []) of
             Inl e \<Rightarrow> Inl e
           | Inr neighbors \<Rightarrow>
               (let neighbor_names =
                      filter (\<lambda>nm. nm \<noteq> []) (map (\<lambda>n. strip (or_empty (dst_name n))) neighbors);
                    extra_terms = join '' '' (fromkeys (seed_names @ neighbor_names));
                    query_text = (if extra_terms \<noteq> []
                                  then user_text @ [CHR 0x0A, CHR 0x0A] @ extra_terms
                                  else user_text)
                in if GRAPH_CHUNK_CANDIDATES cfg > 0 \<and> seed_ids \<noteq> []
                   then (case call_list_chunk_ids_by_entities svc seed_ids
                                (GRAPH_CHUNK_CANDIDATES cfg) of
                           Inl e \<Rightarrow> Inl e
                         | Inr graph_chunk_ids \<Rightarrow>
                             if graph_chunk_ids \<noteq> []
                             then (case call_get_chunks_by_ids svc graph_chunk_ids of
                                     Inl e \<Rightarrow> Inl e
                                   | Inr graph_hits \<Rightarrow> Inr (query_text, graph_hits))
                             else Inr (query_text, []))
                   else Inr (query_text, []))))"

text \<open>
  The union of the two candidate lists: the loop with \<^verbatim>\<open>seen\<close> and \<^verbatim>\<open>hits\<close>, and the cut
  \<^verbatim>\<open>if recall_k and len(hits) > recall_k: hits = hits[:recall_k]\<close>.
\<close>

definition union_step :: "hit \<Rightarrow> string set \<times> hit list \<Rightarrow> string set \<times> hit list" where
  "union_step h st =
     (case chunk_id h of
        None \<Rightarrow> st
      | Some cid \<Rightarrow> if cid = [] \<or> cid \<in> fst st then st
                    else (insert cid (fst st), snd st @ [h]))"

definition union_hits :: "int \<Rightarrow> hit list \<Rightarrow> hit list \<Rightarrow> hit list" where
  "union_hits recall_k graph_hits vector_hits =
     (let hits = snd (fold union_step (graph_hits @ vector_hits) ({}, []))
      in if recall_k \<noteq> 0 \<and> int (length hits) > recall_k then slice_to recall_k hits else hits)"

text \<open>The context string built from the final hits.\<close>

definition build_context :: "settings \<Rightarrow> hit list \<Rightarrow> string" where
  "build_context cfg hits =
     (let context = join [CHR 0x0A, CHR 0x0A]
                      (List.map_filter
                         (\<lambda>h. case chunk_text h of
                                None \<Rightarrow> None
                              | Some t \<Rightarrow> if t = [] then None else Some t) hits)
      in if int (length context) > MAX_PDF_CONTEXT_CHARS cfg
         then slice_to (MAX_PDF_CONTEXT_CHARS cfg) context @ context_cut_marker cfg
         else context)"

text \<open>
  What the retrieval step leaves in \<^verbatim>\<open>pdf_context\<close>: nothing, the context, or the message of
  the \<^verbatim>\<open>except\<close> branch with the exception.
\<close>

datatype pdf_context = NoContext | Context string | RetrievalFailed error

text \<open>
  The \<^verbatim>\<open>try\<close> block of step 1 of \<^verbatim>\<open>chat_send\<close>, for the stripped user text:
  \<^verbatim>\<open>recall_k\<close>, \<^verbatim>\<open>vector_k\<close> and \<^verbatim>\<open>graph_k\<close> are \<open>RERANK_CANDIDATES\<close>,
  \<open>VECTOR_CHUNK_CANDIDATES\<close> and \<open>GRAPH_CHUNK_CANDIDATES\<close>.
\<close>

definition retrieval_try ::
  "services \<Rightarrow> settings \<Rightarrow> string \<Rightarrow> bool \<Rightarrow> string option \<Rightarrow> error + hit list \<times> pdf_context" where
  "retrieval_try svc cfg user_text graph_enabled graph_prompt_key =
     (case (if graph_enabled then graph_path svc cfg user_text graph_prompt_key
            else Inr (user_text, [])) of
        Inl e \<Rightarrow> Inl e
      | Inr g \<Rightarrow>
          (case call_embed_text svc (fst g) of
             Inl e \<Rightarrow> Inl e
           | Inr q_emb \<Rightarrow>
               (case call_search_chunks svc (fst g) q_emb (VECTOR_CHUNK_CANDIDATES cfg) of
                  Inl e \<Rightarrow> Inl e
                | Inr vector_hits \<Rightarrow>
                    (case merge_hits_by_page_or_caption (PRE_RERANK_MERGE_MAX_CHARS cfg)
                            (union_hits (RERANK_CANDIDATES cfg) (snd g) vector_hits) of
                       Inl e \<Rightarrow> Inl e
                     | Inr merged \<Rightarrow>
                         (case (if RERANK_ENABLED cfg \<and> merged \<noteq> []
                                then rerank_hits (call_rerank svc) (RERANK_MIN_SCORE cfg) user_text
                                       merged (PDF_TOP_K_CHUNKS cfg)
                                else Inr merged) of
                            Inl e \<Rightarrow> Inl e
                          | Inr hits \<Rightarrow>
                              Inr (hits, if hits \<noteq> [] then Context (build_context cfg hits)
                                         else NoContext))))))"

text \<open>
  Step 1 of \<^verbatim>\<open>chat_send\<close>: the hits and the context it hands to the later steps. \<open>None\<close> is
  the early return for an empty text; the \<^verbatim>\<open>except\<close> branch empties the hits and keeps the
  exception in the context.
\<close>

definition chat_send_retrieval ::
  "services \<Rightarrow> settings \<Rightarrow> string option \<Rightarrow> bool \<Rightarrow> string option \<Rightarrow> (hit list \<times> pdf_context) option" where
  "chat_send_retrieval svc cfg user_text graph_enabled graph_prompt_key =
     (let text = strip (or_empty user_text)
      in if text = [] then None
         else (case retrieval_try svc cfg text graph_enabled graph_prompt_key of
                 Inl e \<Rightarrow> Some ([], RetrievalFailed e)
               | Inr r \<Rightarrow> Some r))"

section \<open>Notions for the statements\<close>




text \<open>
  For the statements about the worker: the total a list of mentions takes from the entity with
  id \<open>k\<close>, the sum of the counts of the mentions that name it.
\<close>

definition dec_total :: "mention list \<Rightarrow> string \<Rightarrow> int" where
  "dec_total ms k = sum_list (map mention_cnt (filter (\<lambda>m. mention_eid m = k) ms))"




chapter \<open>The verification\<close>

section \<open>Tables with a unique key\<close>

lemma find_conflict_unique:
  assumes "i < length tbl" and "P (tbl ! i)"
      and "\<forall>j<length tbl. P (tbl ! j) \<longrightarrow> j = i"
  shows "find P tbl = Some (tbl ! i)"
proof -
  obtain r where r: "find P tbl = Some r"
    using assms(1,2) by (cases "find P tbl") (auto simp: find_None_iff)
  then obtain j where "j < length tbl" "P (tbl ! j)" "r = tbl ! j"
    by (auto simp: find_Some_iff)
  with assms(3) r show ?thesis by auto
qed

lemma map_conflict_unique:
  assumes "i < length tbl" and "P (tbl ! i)"
      and "\<forall>j<length tbl. P (tbl ! j) \<longrightarrow> j = i"
  shows "map (\<lambda>x. if P x then f x else x) tbl = tbl[i := f (tbl ! i)]"
proof (rule nth_equalityI)
  show "length (map (\<lambda>x. if P x then f x else x) tbl) = length (tbl[i := f (tbl ! i)])"
    by simp
next
  fix j assume "j < length (map (\<lambda>x. if P x then f x else x) tbl)"
  then have j: "j < length tbl" by simp
  show "map (\<lambda>x. if P x then f x else x) tbl ! j = tbl[i := f (tbl ! i)] ! j"
  proof (cases "j = i")
    case True
    with assms(1,2) show ?thesis by simp
  next
    case False
    with assms(3) j have "\<not> P (tbl ! j)" by blast
    with False j show ?thesis by simp
  qed
qed

section \<open>Entity upsert\<close>

lemma upsert_entity_nonempty_aliases:
  assumes "case emb of None \<Rightarrow> True | Some v \<Rightarrow> embed_dim = 0 \<or> int (length v) = embed_dim"
      and "als \<noteq> []"
  shows "upsert_entity embed_dim now new_id tbl ctx name ty (Some als) descr conf cls emb
           = Inl (ServiceError ''jsonb'')"
  using assms
  by (auto simp: upsert_entity_def Let_def bind_jsonb_def vec_literal_def split: option.splits)

lemma upsert_entity_merges_without_aliases:
  assumes i: "i < length tbl"
      and hit: "entity_conflict (app_id ctx) name ty cls (tbl ! i)"
      and uniq: "\<forall>j<length tbl. entity_conflict (app_id ctx) name ty cls (tbl ! j) \<longrightarrow> j = i"
      and dim: "case emb of None \<Rightarrow> True | Some v \<Rightarrow> embed_dim = 0 \<or> int (length v) = embed_dim"
      and als: "als = None \<or> als = Some []"
  shows "\<exists>ret tbl'. upsert_entity embed_dim now new_id tbl ctx name ty als descr conf cls emb
                = Inr (ret, tbl')
            \<and> length tbl' = length tbl
            \<and> (\<forall>j<length tbl. j \<noteq> i \<longrightarrow> tbl' ! j = tbl ! j)
            \<and> entity_conflict (app_id ctx) name ty cls (tbl' ! i)
            \<and> entity_id (tbl' ! i) = entity_id (tbl ! i)
            \<and> e_aliases (tbl' ! i) = JObject
            \<and> e_confidence (tbl' ! i) = conf
            \<and> e_embedding (tbl' ! i) = (case emb of None \<Rightarrow> e_embedding (tbl ! i) | Some v \<Rightarrow> Some v)
            \<and> occurrence_count (tbl' ! i) = occurrence_count (tbl ! i) + 1
            \<and> is_active (tbl' ! i)
            \<and> r_occurrence_count ret = occurrence_count (tbl ! i) + 1"
proof -
  let ?P = "entity_conflict (app_id ctx) name ty cls"
  have l: "(case emb of None \<Rightarrow> Inr None
            | Some v \<Rightarrow> (case vec_literal embed_dim v of Inl e \<Rightarrow> Inl e | Inr l \<Rightarrow> Inr (Some l)))
          = (Inr emb :: error + vec option)"
    using dim by (auto simp: vec_literal_def split: option.splits)
  have b: "bind_jsonb (case als of None \<Rightarrow> [] | Some a \<Rightarrow> a) = Inr JObject"
    using als by (auto simp: bind_jsonb_def)
  have f: "find ?P tbl = Some (tbl ! i)"
    using i hit uniq by (rule find_conflict_unique)
  have m: "map (\<lambda>x. if ?P x then g x else x) tbl = tbl[i := g (tbl ! i)]" for g
    using i hit uniq by (rule map_conflict_unique)
  have A: "upsert_entity embed_dim now new_id tbl ctx name ty als descr conf cls emb
       = Inr (returning (entity_do_update now JObject descr conf emb (tbl ! i)),
              tbl[i := entity_do_update now JObject descr conf emb (tbl ! i)])"
    unfolding upsert_entity_def Let_def l b by (simp add: f m)
  have P': "?P (entity_do_update now a d c e (tbl ! i))" for a d c e
    using hit by (simp add: entity_conflict_def entity_do_update_def)
  show ?thesis
    unfolding A using i P'
    by (simp add: entity_do_update_def returning_def coalesce_def split: option.splits)
qed

text \<open>
  Claim C1 does not hold of the code. The \<^verbatim>\<open>ON CONFLICT\<close> clause does merge: when the call
  passes no alias (or the empty list), the stored row keeps its place and id, takes the incoming
  confidence, keeps its embedding unless a new one is supplied, counts one more occurrence and is
  active (the lemma above). But the alias list is bound to \<^verbatim>\<open>%s::jsonb\<close> unwrapped, so every call
  with a non-empty alias list raises and writes nothing, and the empty list is stored as the
  object \<^verbatim>\<open>{}\<close>. Here: a first call with the aliases of the extractor raises on the empty
  table; a first call without aliases stores the row with count 1; a second call on that row with
  aliases raises, and the count is still 1, not 2.
\<close>

theorem upsert_entity_alias_list_raises:
  "upsert_entity 2 7 ''e1'' [] \<lparr>app_id = ''appA'', clearance = 2, request_id = ''q''\<rparr>
       ''Acme'' ''org'' (Some [''ACME'' ]) None ''high'' 1 None
     = Inl (ServiceError ''jsonb'')
   \<and> upsert_entity 2 7 ''e1'' [] \<lparr>app_id = ''appA'', clearance = 2, request_id = ''q''\<rparr>
       ''Acme'' ''org'' None None ''low'' 1 (Some [1, 2])
     = Inr (\<lparr>r_entity_id = ''e1'', r_name = ''Acme'', r_type = ''org'', r_confidence = ''low'',
             r_occurrence_count = 1, r_is_active = True\<rparr>,
            [\<lparr>entity_id = ''e1'', e_app_id = ''appA'', e_name = ''Acme'', e_type = ''org'',
              e_classification = 1, e_aliases = JObject, e_description = None,
              e_confidence = ''low'', e_embedding = Some [1, 2], occurrence_count = 1,
              first_occurrence = 7, last_occurrence = 7, is_active = True\<rparr>])
   \<and> upsert_entity 2 8 ''e2''
       [\<lparr>entity_id = ''e1'', e_app_id = ''appA'', e_name = ''Acme'', e_type = ''org'',
         e_classification = 1, e_aliases = JObject, e_description = None, e_confidence = ''low'',
         e_embedding = Some [1, 2], occurrence_count = 1, first_occurrence = 7,
         last_occurrence = 7, is_active = True\<rparr>]
       \<lparr>app_id = ''appA'', clearance = 2, request_id = ''q''\<rparr>
       ''Acme'' ''org'' (Some [''ACME'' ]) None ''high'' 1 None
     = Inl (ServiceError ''jsonb'')"
  by (simp add: upsert_entity_def bind_jsonb_def vec_literal_def entity_conflict_def
        entity_values_def returning_def)

section \<open>Edges\<close>

lemma upsert_edge_nonempty_evidence:
  "ids \<noteq> [] \<Longrightarrow>
   upsert_edge tbl ctx src dst et w (Some ids) conf cls nts = Inl (ServiceError ''jsonb'')"
  by (simp add: upsert_edge_def bind_jsonb_def)

lemma upsert_edge_absent:
  assumes "find (edge_conflict (app_id ctx) src dst et) tbl = None"
      and "ev = None \<or> ev = Some []"
  shows "upsert_edge tbl ctx src dst et w ev conf cls nts
           = Inr (tbl @ [\<lparr>ed_app_id = app_id ctx, src_entity_id = src, dst_entity_id = dst,
                           edge_type = et, weight = w, ed_confidence = conf,
                           ed_classification = cls, evidence_count = 1,
                           evidence_chunk_ids = Some JObject, edge_notes = nts\<rparr>])"
  using assms by (auto simp: upsert_edge_def bind_jsonb_def)

lemma upsert_edge_stored_object:
  assumes "find (edge_conflict (app_id ctx) src dst et) tbl = Some r"
      and "evidence_chunk_ids r = Some JObject"
  shows "upsert_edge tbl ctx src dst et w ev conf cls nts
           = Inl (ServiceError (if ev = None \<or> ev = Some [] then ''jsonb_array_elements''
                                else ''jsonb''))"
  using assms
  by (auto simp: upsert_edge_def bind_jsonb_def edge_do_update_def jsonb_concat_def
        jsonb_array_elements_def split: option.splits)

lemma upsert_edge_stored_array:
  assumes i: "i < length tbl"
      and hit: "edge_conflict (app_id ctx) src dst et (tbl ! i)"
      and uniq: "\<forall>j<length tbl. edge_conflict (app_id ctx) src dst et (tbl ! j) \<longrightarrow> j = i"
      and arr: "evidence_chunk_ids (tbl ! i) = Some (JArray xs)"
      and ev: "ev = None \<or> ev = Some []"
  shows "upsert_edge tbl ctx src dst et w ev conf cls nts
           = Inr (tbl[i := (tbl ! i)\<lparr>weight := min (weight (tbl ! i) + w) 1,
                                     ed_confidence := conf,
                                     evidence_count := evidence_count (tbl ! i) + 1,
                                     evidence_chunk_ids := Some (JArray (remdups (xs @ [JEmpty]))),
                                     edge_notes := coalesce nts (edge_notes (tbl ! i))\<rparr>])"
proof -
  let ?P = "edge_conflict (app_id ctx) src dst et"
  have f: "find ?P tbl = Some (tbl ! i)"
    using i hit uniq by (rule find_conflict_unique)
  have m: "map (\<lambda>x. if ?P x then r' else x) tbl = tbl[i := r']" for r'
    using map_conflict_unique[OF i hit uniq, of "\<lambda>_. r'"] by simp
  have b: "bind_jsonb (case ev of None \<Rightarrow> [] | Some l \<Rightarrow> l) = Inr JObject"
    using ev by (auto simp: bind_jsonb_def)
  show ?thesis
    unfolding upsert_edge_def b
    by (simp add: f m edge_do_update_def arr jsonb_concat_def jsonb_array_elements_def
          jsonb_agg_distinct_def)
qed

text \<open>
  Claim C5 does not hold of the code. The evidence list is bound to \<^verbatim>\<open>%s::jsonb\<close> unwrapped.
  A call with a non-empty list of chunk ids, as the ingestion makes it
  (\<^verbatim>\<open>evidence_chunk_ids=[str(chunk_id)]\<close>, weight \<^verbatim>\<open>0.5\<close>), raises and writes no edge, on the
  empty table and on a stored edge alike. A call without evidence inserts the edge with the
  object \<^verbatim>\<open>{}\<close> as its id list, and the next call on that key raises in
  \<^verbatim>\<open>jsonb_array_elements\<close>. Only on a stored array does a call with the empty list get through:
  the weight is then \<^verbatim>\<open>LEAST(weight + 0.5, 1.000)\<close> and the count one more, and the id list gains
  the element \<^verbatim>\<open>{}\<close>.
\<close>

theorem upsert_edge_evidence_list_raises:
  "upsert_edge [] \<lparr>app_id = ''appA'', clearance = 2, request_id = ''q''\<rparr>
      ''e1'' ''e2'' ''co_occurs'' (1/2) (Some [''c1'' ]) ''medium'' 1 None
     = Inl (ServiceError ''jsonb'')
   \<and> upsert_edge [] \<lparr>app_id = ''appA'', clearance = 2, request_id = ''q''\<rparr>
      ''e1'' ''e2'' ''co_occurs'' (1/2) None ''medium'' 1 None
     = Inr [\<lparr>ed_app_id = ''appA'', src_entity_id = ''e1'', dst_entity_id = ''e2'',
             edge_type = ''co_occurs'', weight = 1/2, ed_confidence = ''medium'',
             ed_classification = 1, evidence_count = 1, evidence_chunk_ids = Some JObject,
             edge_notes = None\<rparr>]
   \<and> upsert_edge
        [\<lparr>ed_app_id = ''appA'', src_entity_id = ''e1'', dst_entity_id = ''e2'',
          edge_type = ''co_occurs'', weight = 1/2, ed_confidence = ''medium'',
          ed_classification = 1, evidence_count = 1, evidence_chunk_ids = Some JObject,
          edge_notes = None\<rparr>]
        \<lparr>app_id = ''appA'', clearance = 2, request_id = ''q''\<rparr>
        ''e1'' ''e2'' ''co_occurs'' (1/2) None ''medium'' 1 None
     = Inl (ServiceError ''jsonb_array_elements'')
   \<and> upsert_edge
        [\<lparr>ed_app_id = ''appA'', src_entity_id = ''e1'', dst_entity_id = ''e2'',
          edge_type = ''co_occurs'', weight = 1/2, ed_confidence = ''medium'',
          ed_classification = 1, evidence_count = 1,
          evidence_chunk_ids = Some (JArray [JString ''c1'', JString ''c2'' ]),
          edge_notes = None\<rparr>]
        \<lparr>app_id = ''appA'', clearance = 2, request_id = ''q''\<rparr>
        ''e1'' ''e2'' ''co_occurs'' (1/2) (Some [''c2'' ]) ''medium'' 1 None
     = Inl (ServiceError ''jsonb'')
   \<and> upsert_edge
        [\<lparr>ed_app_id = ''appA'', src_entity_id = ''e1'', dst_entity_id = ''e2'',
          edge_type = ''co_occurs'', weight = 1/2, ed_confidence = ''medium'',
          ed_classification = 1, evidence_count = 1,
          evidence_chunk_ids = Some (JArray [JString ''c1'', JString ''c2'' ]),
          edge_notes = None\<rparr>]
        \<lparr>app_id = ''appA'', clearance = 2, request_id = ''q''\<rparr>
        ''e1'' ''e2'' ''co_occurs'' (1/2) (Some []) ''medium'' 1 None
     = Inr [\<lparr>ed_app_id = ''appA'', src_entity_id = ''e1'', dst_entity_id = ''e2'',
             edge_type = ''co_occurs'', weight = 1, ed_confidence = ''medium'',
             ed_classification = 1, evidence_count = 2,
             evidence_chunk_ids = Some (JArray [JString ''c1'', JString ''c2'', JEmpty]),
             edge_notes = None\<rparr>]"
  by (simp add: upsert_edge_def bind_jsonb_def edge_conflict_def edge_do_update_def
        jsonb_concat_def jsonb_array_elements_def jsonb_agg_distinct_def coalesce_def)

section \<open>Maintenance worker\<close>

lemma map_of_dict_set: "map_of (dict_set k v d) = (map_of d)(k \<mapsto> v)"
  by (induction d) (auto simp: fun_eq_iff)

lemma keys_dict_set: "fst ` set (dict_set k v d) = insert k (fst ` set d)"
proof -
  have "fst ` set (dict_set k v d) = dom (map_of (dict_set k v d))"
    by (simp add: dom_map_of_conv_image_fst)
  also have "\<dots> = insert k (dom (map_of d))"
    by (simp add: map_of_dict_set)
  finally show ?thesis by (simp add: dom_map_of_conv_image_fst)
qed

lemma distinct_dict_set: "distinct (map fst d) \<Longrightarrow> distinct (map fst (dict_set k v d))"
proof (induction d)
  case Nil
  show ?case by simp
next
  case (Cons p d)
  obtain k' v' where p: "p = (k', v')" by (cases p)
  show ?case
  proof (cases "k' = k")
    case True
    with Cons.prems show ?thesis by (simp add: p)
  next
    case False
    from Cons.prems have "k' \<notin> fst ` set d" and "distinct (map fst d)" by (simp_all add: p)
    with False Cons.IH show ?thesis by (simp add: p keys_dict_set)
  qed
qed

lemma dec_total_absent: "k \<notin> mention_eid ` set ms \<Longrightarrow> dec_total ms k = 0"
proof -
  assume "k \<notin> mention_eid ` set ms"
  then have "filter (\<lambda>m. mention_eid m = k) ms = []"
    by (auto simp: filter_empty_conv)
  then show ?thesis by (simp add: dec_total_def)
qed

lemma dec_total_Cons:
  "dec_total (m # ms) k = (if mention_eid m = k then mention_cnt m else 0) + dec_total ms k"
  by (simp add: dec_total_def)

lemma fst_collect_mention:
  "fst (collect_mention m st) =
     (if mention_eid m = [] then fst st
      else dict_set (mention_eid m) (dict_get (fst st) (mention_eid m) 0 + mention_cnt m) (fst st))"
  by (simp add: collect_mention_def Let_def)

lemma fold_collect_distinct:
  "distinct (map fst (fst st)) \<Longrightarrow> distinct (map fst (fst (fold collect_mention ms st)))"
  by (induction ms arbitrary: st) (simp_all add: fst_collect_mention distinct_dict_set)

lemma fold_collect_map_of:
  "k \<noteq> [] \<Longrightarrow>
   map_of (fst (fold collect_mention ms st)) k =
     (if k \<in> mention_eid ` set ms
      then Some (dict_get (fst st) k 0 + dec_total ms k)
      else map_of (fst st) k)"
proof (induction ms arbitrary: st)
  case Nil
  then show ?case by simp
next
  case (Cons m ms)
  show ?case
  proof (cases "mention_eid m = k")
    case True
    with Cons.prems have ne: "mention_eid m \<noteq> []" by simp
    have "dict_get (fst (collect_mention m st)) k 0 = dict_get (fst st) k 0 + mention_cnt m"
      using True ne by (simp add: fst_collect_mention dict_get_def map_of_dict_set)
    moreover have "map_of (fst (collect_mention m st)) k
                     = Some (dict_get (fst st) k 0 + mention_cnt m)"
      using True ne by (simp add: fst_collect_mention map_of_dict_set)
    ultimately show ?thesis
      using True Cons.IH[OF Cons.prems, of "collect_mention m st"]
      by (simp add: dec_total_Cons dec_total_absent)
  next
    case False
    then have same: "map_of (fst (collect_mention m st)) k = map_of (fst st) k"
      by (simp add: fst_collect_mention map_of_dict_set)
    then have "dict_get (fst (collect_mention m st)) k 0 = dict_get (fst st) k 0"
      by (simp add: dict_get_def)
    with same False show ?thesis
      using Cons.IH[OF Cons.prems, of "collect_mention m st"]
      by (simp add: dec_total_Cons)
  qed
qed

lemma fold_collect_keys:
  "[] \<notin> fst ` set (fst st) \<Longrightarrow>
   fst ` set (fst (fold collect_mention ms st))
     = fst ` set (fst st) \<union> (mention_eid ` set ms - {[]})"
proof (induction ms arbitrary: st)
  case Nil
  then show ?case by simp
next
  case (Cons m ms)
  have "[] \<notin> fst ` set (fst (collect_mention m st))"
    using Cons.prems by (simp add: fst_collect_mention keys_dict_set)
  from Cons.IH[OF this] show ?case
    by (auto simp: fst_collect_mention keys_dict_set)
qed

lemma fold_decrement:
  "distinct (map fst dm) \<Longrightarrow>
   fold (\<lambda>kv t. decrement_entity_occurrence t ctx (fst kv) (snd kv)) dm tbl =
     map (\<lambda>r. if e_app_id r = app_id ctx
               then (case map_of dm (entity_id r) of
                       None \<Rightarrow> r
                     | Some d \<Rightarrow> r\<lparr>occurrence_count := max (occurrence_count r - d) 0\<rparr>)
               else r) tbl"
proof (induction dm arbitrary: tbl)
  case Nil
  then show ?case by (simp add: map_idI)
next
  case (Cons kv dm)
  obtain k d where kv: "kv = (k, d)" by (cases kv)
  from Cons.prems kv have nk: "map_of dm k = None" and dist: "distinct (map fst dm)"
    by (auto simp: map_of_eq_None_iff)
  show ?case
    unfolding fold_simps Cons.IH[OF dist]
    using nk by (auto simp: kv decrement_entity_occurrence_def split: option.splits)
qed

lemma dec_map_of_payload:
  fixes ms :: "mention list"
  defines "dm \<equiv> fst (fold collect_mention ms ([], []))"
  shows "distinct (map fst dm)"
    and "fst ` set dm = mention_eid ` set ms - {[]}"
    and "k \<in> fst ` set dm \<Longrightarrow> map_of dm k = Some (dec_total ms k)"
    and "k \<notin> fst ` set dm \<Longrightarrow> map_of dm k = None"
proof -
  show "distinct (map fst dm)"
    unfolding dm_def by (rule fold_collect_distinct) simp
  show keys: "fst ` set dm = mention_eid ` set ms - {[]}"
    unfolding dm_def using fold_collect_keys[of "([], [])" ms] by simp
  show "map_of dm k = Some (dec_total ms k)" if "k \<in> fst ` set dm"
  proof -
    from that keys have "k \<noteq> []" and "k \<in> mention_eid ` set ms" by auto
    then show ?thesis
      unfolding dm_def using fold_collect_map_of[of k ms "([], [])"]
      by (simp add: dict_get_def)
  qed
  show "map_of dm k = None" if "k \<notin> fst ` set dm"
    using that by (simp add: map_of_eq_None_iff)
qed

lemma entities_process_payload:
  "entities (process_payload gctx pl g) =
     map (\<lambda>r. if e_app_id r = app_id gctx
                  \<and> entity_id r \<in> mention_eid ` set (payload_mentions pl) - {[]}
               then (if occurrence_count r - dec_total (payload_mentions pl) (entity_id r) \<le> 0
                     then r\<lparr>occurrence_count := 0, is_active := False, e_confidence := ''low''\<rparr>
                     else r\<lparr>occurrence_count :=
                             occurrence_count r - dec_total (payload_mentions pl) (entity_id r)\<rparr>)
               else r) (entities g)"
proof -
  define ms where "ms = payload_mentions pl"
  define dm where "dm = fst (fold collect_mention ms ([], []))"
  note dmp = dec_map_of_payload[where ms = ms, folded dm_def]
  have ents1: "fold (\<lambda>kv t. decrement_entity_occurrence t gctx (fst kv) (snd kv)) dm (entities g)
      = map (\<lambda>r. if e_app_id r = app_id gctx
               then (case map_of dm (entity_id r) of
                       None \<Rightarrow> r
                     | Some d \<Rightarrow> r\<lparr>occurrence_count := max (occurrence_count r - d) 0\<rparr>)
               else r) (entities g)"
    using dmp(1) by (rule fold_decrement)
  have deact: "deactivate_entities_with_zero_occurrence t gctx (map fst dm)
      = map (\<lambda>r. if e_app_id r = app_id gctx \<and> entity_id r \<in> fst ` set dm
                        \<and> occurrence_count r \<le> 0
                     then r\<lparr>is_active := False, e_confidence := ''low''\<rparr>
                     else r) t" for t
    by (cases "dm = []") (simp_all add: deactivate_entities_with_zero_occurrence_def map_idI)
  have "entities (process_payload gctx pl g) =
     deactivate_entities_with_zero_occurrence
       (fold (\<lambda>kv t. decrement_entity_occurrence t gctx (fst kv) (snd kv)) dm (entities g))
       gctx (map fst dm)"
    by (simp add: process_payload_def Let_def dm_def ms_def)
  also have "\<dots> = map (\<lambda>r. if e_app_id r = app_id gctx
                  \<and> entity_id r \<in> mention_eid ` set ms - {[]}
               then (if occurrence_count r - dec_total ms (entity_id r) \<le> 0
                     then r\<lparr>occurrence_count := 0, is_active := False, e_confidence := ''low''\<rparr>
                     else r\<lparr>occurrence_count := occurrence_count r - dec_total ms (entity_id r)\<rparr>)
               else r) (entities g)"
    unfolding ents1 deact map_map
  proof (rule map_cong[OF refl])
    fix r assume "r \<in> set (entities g)"
    show "((\<lambda>r. if e_app_id r = app_id gctx \<and> entity_id r \<in> fst ` set dm \<and> occurrence_count r \<le> 0
               then r\<lparr>is_active := False, e_confidence := ''low''\<rparr> else r) \<circ>
           (\<lambda>r. if e_app_id r = app_id gctx
                 then case map_of dm (entity_id r) of None \<Rightarrow> r
                      | Some d \<Rightarrow> r\<lparr>occurrence_count := max (occurrence_count r - d) 0\<rparr>
                 else r)) r =
          (if e_app_id r = app_id gctx \<and> entity_id r \<in> mention_eid ` set ms - {[]}
           then if occurrence_count r - dec_total ms (entity_id r) \<le> 0
                then r\<lparr>occurrence_count := 0, is_active := False, e_confidence := ''low''\<rparr>
                else r\<lparr>occurrence_count := occurrence_count r - dec_total ms (entity_id r)\<rparr>
           else r)"
    proof (cases "entity_id r \<in> fst ` set dm")
      case True
      with dmp(2) have "entity_id r \<in> mention_eid ` set ms - {[]}" by simp
      with True dmp(3)[OF True] show ?thesis by (simp add: max_def)
    next
      case False
      with dmp(2) have "\<not> (entity_id r \<in> mention_eid ` set ms - {[]})" by simp
      with False dmp(4)[OF False] show ?thesis by auto
    qed
  qed
  finally show ?thesis by (simp add: ms_def)
qed

text \<open>
  Claim C6. Processing one job payload keeps the entity table's rows in place. A row is
  referenced when it belongs to the worker's tenant and its id is the (stripped, non-empty) entity
  id of some mention. A referenced row's \<open>occurrence_count\<close> is lowered by the total of its
  mentions and floored at zero, so it is not negative; every other row is unchanged. Afterwards a
  row is active exactly when it was active before and is not a referenced row whose count has
  reached zero: the rows deactivated are exactly the decremented ones at zero.
\<close>

theorem process_payload_floors_and_deactivates:
  assumes "j < length (entities g)"
  shows "let r = entities g ! j;
             r' = entities (process_payload gctx pl g) ! j;
             ms = payload_mentions pl;
             referenced = (e_app_id r = app_id gctx \<and> entity_id r \<in> mention_eid ` set ms - {[]})
         in length (entities (process_payload gctx pl g)) = length (entities g)
          \<and> entity_id r' = entity_id r \<and> e_app_id r' = e_app_id r
          \<and> (referenced \<longrightarrow>
                occurrence_count r' = max (occurrence_count r - dec_total ms (entity_id r)) 0
              \<and> 0 \<le> occurrence_count r')
          \<and> (\<not> referenced \<longrightarrow> r' = r)
          \<and> (is_active r' \<longleftrightarrow> is_active r \<and> \<not> (referenced \<and> occurrence_count r' = 0))"
  using assms
  unfolding Let_def entities_process_payload
  by (simp add: max_def)

theorem process_payload_floors_and_deactivates_witness:
  "let g = \<lparr>entities =
              [\<lparr>entity_id = ''e1'', e_app_id = ''appA'', e_name = ''Acme'', e_type = ''org'',
                e_classification = 1, e_aliases = JArray [], e_description = None,
                e_confidence = ''high'', e_embedding = None, occurrence_count = 2,
                first_occurrence = 1, last_occurrence = 1, is_active = True\<rparr>,
               \<lparr>entity_id = ''e2'', e_app_id = ''appA'', e_name = ''Bolt'', e_type = ''org'',
                e_classification = 1, e_aliases = JArray [], e_description = None,
                e_confidence = ''high'', e_embedding = None, occurrence_count = 5,
                first_occurrence = 1, last_occurrence = 1, is_active = True\<rparr>],
            edges = [], jobs = []\<rparr>;
       ctx = \<lparr>app_id = ''appA'', clearance = 2, request_id = ''q''\<rparr>;
       pl = Some \<lparr>p_doc_id = ''d1'', p_chunks = [''c1'' ],
              p_mentions = Some [\<lparr>m_entity_id = Some ''e1'', m_chunk_id = Some ''c1'',
                                   m_mention_count = Some 3\<rparr>,
                                 \<lparr>m_entity_id = Some '' e2'', m_chunk_id = Some ''c1'',
                                   m_mention_count = None\<rparr>]\<rparr>
   in (0::nat) < length (entities g)
    \<and> occurrence_count (entities (process_payload ctx pl g) ! 0) = 0
    \<and> \<not> is_active (entities (process_payload ctx pl g) ! 0)
    \<and> occurrence_count (entities (process_payload ctx pl g) ! 1) = 4
    \<and> is_active (entities (process_payload ctx pl g) ! 1)"
  using process_payload_floors_and_deactivates
    [where j = 0 and gctx = "\<lparr>app_id = ''appA'', clearance = 2, request_id = ''q''\<rparr>"
       and pl = "Some \<lparr>p_doc_id = ''d1'', p_chunks = [''c1'' ],
              p_mentions = Some [\<lparr>m_entity_id = Some ''e1'', m_chunk_id = Some ''c1'',
                                   m_mention_count = Some 3\<rparr>,
                                 \<lparr>m_entity_id = Some '' e2'', m_chunk_id = Some ''c1'',
                                   m_mention_count = None\<rparr>]\<rparr>"
       and g = "\<lparr>entities =
              [\<lparr>entity_id = ''e1'', e_app_id = ''appA'', e_name = ''Acme'', e_type = ''org'',
                e_classification = 1, e_aliases = JArray [], e_description = None,
                e_confidence = ''high'', e_embedding = None, occurrence_count = 2,
                first_occurrence = 1, last_occurrence = 1, is_active = True\<rparr>,
               \<lparr>entity_id = ''e2'', e_app_id = ''appA'', e_name = ''Bolt'', e_type = ''org'',
                e_classification = 1, e_aliases = JArray [], e_description = None,
                e_confidence = ''high'', e_embedding = None, occurrence_count = 5,
                first_occurrence = 1, last_occurrence = 1, is_active = True\<rparr>],
            edges = [], jobs = []\<rparr>"]
  by (simp add: Let_def process_payload_def payload_mentions_def collect_mention_def
        mention_eid_def mention_cid_def mention_cnt_def strip_def lstrip_def rstrip_def
        isspace_def or_empty_def dict_get_def decrement_entity_occurrence_def
        deactivate_entities_with_zero_occurrence_def)

section \<open>Chunk search\<close>

lemma scored_rows_member:
  "r \<in> set (scored_rows distance tbl qv) \<longleftrightarrow>
     fst r \<in> set tbl \<and> (\<exists>e. c_embedding (fst r) = Some e \<and> snd r = distance e qv)"
  unfolding scored_rows_def
  by (induction tbl) (auto split: option.splits simp: prod_eq_iff)

lemma nearest_rows_sorted: "sorted (map snd (nearest_rows distance tbl qv k))"
  unfolding nearest_rows_def take_map[symmetric]
  by (rule sorted_wrt_take) (rule sorted_sort_key)

lemma nearest_rows_subset:
  "set (nearest_rows distance tbl qv k) \<subseteq> set (scored_rows distance tbl qv)"
  unfolding nearest_rows_def using set_take_subset[of k "sort_key snd (scored_rows distance tbl qv)"]
  by simp

lemma nearest_rows_length:
  "length (nearest_rows distance tbl qv k) = min k (length (scored_rows distance tbl qv))"
  by (simp add: nearest_rows_def min.commute)

lemma nearest_rows_nearest:
  assumes "r \<in> set (nearest_rows distance tbl qv k)"
      and "s \<in> set (scored_rows distance tbl qv)" and "s \<notin> set (nearest_rows distance tbl qv k)"
  shows "snd r \<le> snd s"
proof -
  let ?xs = "sort_key snd (scored_rows distance tbl qv)"
  have "sorted (map snd (take k ?xs @ drop k ?xs))" by simp
  then have *: "\<forall>x\<in>set (take k ?xs). \<forall>y\<in>set (drop k ?xs). snd x \<le> snd y"
    unfolding map_append sorted_append by auto
  have "s \<in> set (take k ?xs @ drop k ?xs)" using assms(2) by simp
  with assms(3) have "s \<in> set (drop k ?xs)" unfolding set_append nearest_rows_def by blast
  with * assms(1) show ?thesis unfolding nearest_rows_def by blast
qed

text \<open>
  Claim C4. For a query embedding of the configured dimension \<open>search_chunks\<close> succeeds, and its
  hits are the dicts of rows listed by non-decreasing distance to the query: rows of the table
  that have an embedding, each with its distance, none farther than a row with an embedding that
  is left out, and as many as the limit allows. The limit is 5 when \<open>top_k\<close> is absent or not
  positive: the call then equals the call with \<open>top_k = 5\<close>.
\<close>

theorem search_chunks_orders_by_distance:
  assumes "int (length q) = embed_dim"
  shows "\<exists>rows audit.
           search_chunks distance embed_dim tbl ctx qt q top_k ws
             = Inr (map (row_hit ws) rows, audit)
         \<and> sorted (map snd rows)
         \<and> (\<forall>r\<in>set rows. fst r \<in> set tbl
               \<and> (\<exists>e. c_embedding (fst r) = Some e \<and> snd r = distance e q))
         \<and> (\<forall>r\<in>set rows. \<forall>s\<in>set (scored_rows distance tbl q) - set rows. snd r \<le> snd s)
         \<and> length rows = min (nat (effective_top_k top_k)) (length (scored_rows distance tbl q))
         \<and> effective_top_k top_k
             = (case top_k of None \<Rightarrow> 5 | Some k \<Rightarrow> if k \<le> 0 then 5 else k)
         \<and> (top_k = None \<or> (\<exists>k\<le>0. top_k = Some k) \<longrightarrow>
              search_chunks distance embed_dim tbl ctx qt q top_k ws
                = search_chunks distance embed_dim tbl ctx qt q (Some 5) ws)"
proof -
  let ?rows = "nearest_rows distance tbl q (nat (effective_top_k top_k))"
  have lit: "rag_vec_literal embed_dim q = Inr q"
    using assms by (simp add: rag_vec_literal_def)
  have "\<exists>audit. search_chunks distance embed_dim tbl ctx qt q top_k ws
                  = Inr (map (row_hit ws) ?rows, audit)"
    by (simp add: search_chunks_def Let_def lit)
  moreover have "sorted (map snd ?rows)" by (rule nearest_rows_sorted)
  moreover have "\<forall>r\<in>set ?rows. fst r \<in> set tbl
               \<and> (\<exists>e. c_embedding (fst r) = Some e \<and> snd r = distance e q)"
    using nearest_rows_subset[of distance tbl q "nat (effective_top_k top_k)"]
      scored_rows_member[of _ distance tbl q] by blast
  moreover have "\<forall>r\<in>set ?rows. \<forall>s\<in>set (scored_rows distance tbl q) - set ?rows. snd r \<le> snd s"
    using nearest_rows_nearest by blast
  moreover have "length ?rows = min (nat (effective_top_k top_k)) (length (scored_rows distance tbl q))"
    by (rule nearest_rows_length)
  moreover have "effective_top_k top_k
             = (case top_k of None \<Rightarrow> 5 | Some k \<Rightarrow> if k \<le> 0 then 5 else k)"
    by (simp add: effective_top_k_def)
  moreover have "top_k = None \<or> (\<exists>k\<le>0. top_k = Some k) \<longrightarrow>
              search_chunks distance embed_dim tbl ctx qt q top_k ws
                = search_chunks distance embed_dim tbl ctx qt q (Some 5) ws"
    by (auto simp: search_chunks_def effective_top_k_def)
  ultimately show ?thesis by blast
qed

theorem search_chunks_orders_by_distance_witness:
  "let distance = (\<lambda>a b. sum_list (map2 (\<lambda>x y. (x - y) * (x - y)) a b));
       tbl = [\<lparr>c_chunk_id = ''c1'', c_doc_id = ''d1'', c_version_id = ''v1'', c_app_id = ''appA'',
               c_chunk_text = Some ''B'', c_embedding = Some [3]\<rparr>,
              \<lparr>c_chunk_id = ''c2'', c_doc_id = ''d1'', c_version_id = ''v1'', c_app_id = ''appA'',
               c_chunk_text = Some ''A'', c_embedding = Some [1]\<rparr>,
              \<lparr>c_chunk_id = ''c3'', c_doc_id = ''d1'', c_version_id = ''v1'', c_app_id = ''appA'',
               c_chunk_text = Some ''C'', c_embedding = None\<rparr>];
       ctx = \<lparr>app_id = ''appA'', clearance = 2, request_id = ''q''\<rparr>
   in int (length [0::rat]) = 1
    \<and> (\<exists>rows audit.
           search_chunks distance 1 tbl ctx ''query'' [0] (Some 0) True
             = Inr (map (row_hit True) rows, audit)
         \<and> sorted (map snd rows)
         \<and> (\<forall>r\<in>set rows. fst r \<in> set tbl
               \<and> (\<exists>e. c_embedding (fst r) = Some e \<and> snd r = distance e [0]))
         \<and> (\<forall>r\<in>set rows. \<forall>s\<in>set (scored_rows distance tbl [0]) - set rows. snd r \<le> snd s)
         \<and> length rows = min (nat (effective_top_k (Some 0))) (length (scored_rows distance tbl [0]))
         \<and> effective_top_k (Some 0)
             = (case Some (0::int) of None \<Rightarrow> 5 | Some k \<Rightarrow> if k \<le> 0 then 5 else k)
         \<and> (Some (0::int) = None \<or> (\<exists>k\<le>0. Some (0::int) = Some k) \<longrightarrow>
              search_chunks distance 1 tbl ctx ''query'' [0] (Some 0) True
                = search_chunks distance 1 tbl ctx ''query'' [0] (Some 5) True))
    \<and> map (chunk_id) (fst (projr (search_chunks distance 1 tbl ctx ''query'' [0] (Some 0) True)))
         = [Some ''c2'', Some ''c1'' ]
    \<and> map score (fst (projr (search_chunks distance 1 tbl ctx ''query'' [0] (Some 0) True)))
         = [Some 1, Some 9]"
proof -
  have h: "int (length [0::rat]) = 1" by simp
  show ?thesis
    unfolding Let_def
    apply (intro conjI)
       apply (rule h)
      apply (rule search_chunks_orders_by_distance[OF h])
     apply (simp add: search_chunks_def effective_top_k_def rag_vec_literal_def nearest_rows_def
          scored_rows_def row_hit_def Let_def)
    apply (simp add: search_chunks_def effective_top_k_def rag_vec_literal_def nearest_rows_def
          scored_rows_def row_hit_def Let_def)
    done
qed

section \<open>Merge pass\<close>

subsection \<open>First occurrences\<close>




subsection \<open>The header is always parsed\<close>




subsection \<open>The state of the loop after a prefix of the hits\<close>




lemma zip_upt_snoc: "zip (ks @ [k]) [0..<length (ks @ [k])] = zip ks [0..<length ks] @ [(k, length ks)]"
  by simp

















section \<open>Union of the candidate lists\<close>





















section \<open>Failures in the retrieval step\<close>

text \<open>
  Claim C2 does not hold of the code. Of the graph path, only the chat call of the entity
  extraction and the embedding recall of the entity match are guarded; the lookups in the graph
  store and the chunk store are made inside the one \<^verbatim>\<open>try\<close> of the retrieval step, whose
  \<^verbatim>\<open>except\<close> empties the hits. Below, the question names an entity of the graph: with all
  collaborators at work the step returns the graph chunk and then the vector chunk, and with
  the graph switched off the vector chunk. When the extraction fails the step returns the
  vector chunk alone, and when the embedding recall fails both chunks, as claimed. When the
  match by name, the neighbour expansion, the listing of chunk ids or the fetch of the graph
  chunks raises, the step ends with no hit and the exception in the context, as it does when
  the vector search raises.
\<close>

theorem chat_send_graph_lookup_failure_aborts:
  "let hg = \<lparr>chunk_id = Some ''g1'', doc_id = Some ''d'', version_id = Some ''v'',
             chunk_text = Some (''[[META type=text page=1]]'' @ CHR 0x0A # ''Acme makes widgets''),
             score = None\<rparr>;
       hv = \<lparr>chunk_id = Some ''v1'', doc_id = Some ''d'', version_id = Some ''v'',
             chunk_text = Some (''[[META type=text page=2]]'' @ CHR 0x0A # ''about widgets''),
             score = None\<rparr>;
       svc = \<lparr>call_chat = (\<lambda>prompt text. Inr ''[Acme, org]''),
              json_entities = (\<lambda>raw. [\<lparr>raw_name = Some ''Acme'', raw_type = Some ''org'',
                                         raw_aliases = None, raw_confidence = None\<rparr>]),
              call_embed_text = (\<lambda>text. Inr [1, 0]),
              call_find_entities_by_name_or_alias =
                (\<lambda>name limit. Inr [\<lparr>em_entity_id = Some ''e1'', em_name = Some ''Acme'',
                                      em_occurrence_count = Some 0\<rparr>]),
              call_find_entities_by_embedding = (\<lambda>emb limit min_sim. Inr []),
              call_get_neighbor_entities = (\<lambda>ids limit. Inr [\<lparr>dst_name = Some ''Widget''\<rparr>]),
              call_list_chunk_ids_by_entities = (\<lambda>ids limit. Inr [''g1'']),
              call_get_chunks_by_ids = (\<lambda>ids. Inr [hg]),
              call_search_chunks = (\<lambda>text emb top_k. Inr [hv]),
              call_rerank = (\<lambda>query docs top_k. Inr []),
              math_log = (\<lambda>n. 0)\<rparr>;
       cfg = \<lparr>GRAPH_ENTITY_PROMPTS = [(''strict'', ''Return at most 3 entities.'')],
              GRAPH_ENTITY_PROMPT_DEFAULT = ''strict'',
              GRAPH_ENTITY_MIN_SIM = None,
              RERANK_CANDIDATES = 10,
              VECTOR_CHUNK_CANDIDATES = 40,
              GRAPH_CHUNK_CANDIDATES = 20,
              RERANK_ENABLED = False,
              RERANK_MIN_SCORE = Some (4 / 10),
              PDF_TOP_K_CHUNKS = 3,
              PRE_RERANK_MERGE_MAX_CHARS = 9000,
              MAX_PDF_CONTEXT_CHARS = 8000,
              context_cut_marker = CHR 0x0A # ''...''\<rparr>;
       q = Some ''what does Acme make''
   in map_option fst (chat_send_retrieval svc cfg q True None) = Some [hg, hv]
    \<and> map_option fst (chat_send_retrieval svc cfg q False None) = Some [hv]
    \<and> map_option fst
          (chat_send_retrieval (svc\<lparr>call_chat := (\<lambda>prompt text. Inl (ServiceError ''chat''))\<rparr>)
             cfg q True None) = Some [hv]
    \<and> map_option fst
          (chat_send_retrieval
             (svc\<lparr>call_find_entities_by_embedding :=
                     (\<lambda>emb limit min_sim. Inl (ServiceError ''find_entities_by_embedding''))\<rparr>)
             cfg q True None) = Some [hg, hv]
    \<and> chat_send_retrieval
          (svc\<lparr>call_find_entities_by_name_or_alias :=
                  (\<lambda>name limit. Inl (ServiceError ''find_entities_by_name_or_alias''))\<rparr>)
          cfg q True None
        = Some ([], RetrievalFailed (ServiceError ''find_entities_by_name_or_alias''))
    \<and> chat_send_retrieval
          (svc\<lparr>call_get_neighbor_entities :=
                  (\<lambda>ids limit. Inl (ServiceError ''get_neighbor_entities''))\<rparr>)
          cfg q True None
        = Some ([], RetrievalFailed (ServiceError ''get_neighbor_entities''))
    \<and> chat_send_retrieval
          (svc\<lparr>call_list_chunk_ids_by_entities :=
                  (\<lambda>ids limit. Inl (ServiceError ''list_chunk_ids_by_entities''))\<rparr>)
          cfg q True None
        = Some ([], RetrievalFailed (ServiceError ''list_chunk_ids_by_entities''))
    \<and> chat_send_retrieval
          (svc\<lparr>call_get_chunks_by_ids := (\<lambda>ids. Inl (ServiceError ''get_chunks_by_ids''))\<rparr>)
          cfg q True None
        = Some ([], RetrievalFailed (ServiceError ''get_chunks_by_ids''))
    \<and> chat_send_retrieval
          (svc\<lparr>call_search_chunks := (\<lambda>text emb top_k. Inl (ServiceError ''search_chunks''))\<rparr>)
          cfg q True None
        = Some ([], RetrievalFailed (ServiceError ''search_chunks''))"
  unfolding Let_def
  apply (rule conjI)
   apply code_simp
  apply (rule conjI)
   apply code_simp
  apply (rule conjI)
   apply code_simp
  apply (rule conjI)
   apply code_simp
  apply (rule conjI)
   apply code_simp
  apply (rule conjI)
   apply code_simp
  apply (rule conjI)
   apply code_simp
  apply (rule conjI)
   apply code_simp
  apply code_simp
  done

lemma rerank_hits_propagates:
  assumes "hits \<noteq> []" and "post query (map chunk_text hits) top_k = Inl e"
  shows "rerank_hits post min_score query hits top_k = Inl e"
  using assms by (simp add: rerank_hits_def rerank_results_def)

text \<open>
  Claim C8 does not hold of the code. \<^verbatim>\<open>rerank_hits\<close> has no \<^verbatim>\<open>try\<close>, so an exception of the
  request to the scorer leaves it, and in \<^verbatim>\<open>chat_send\<close> it reaches the \<^verbatim>\<open>except\<close> of the
  retrieval step, which empties the hits. Below, the vector search returns two chunks, which
  the step hands on in that order when reranking is switched off (the list before the rerank);
  with reranking on and the scorer unreachable, \<^verbatim>\<open>rerank_hits\<close> raises on that list and
  the step ends with no hit and the exception in the context.
\<close>

theorem chat_send_rerank_failure_empties_hits:
  "let h1 = \<lparr>chunk_id = Some ''c1'', doc_id = Some ''d'', version_id = Some ''v'',
             chunk_text = Some (''[[META type=text page=1]]'' @ CHR 0x0A # ''alpha''),
             score = None\<rparr>;
       h2 = \<lparr>chunk_id = Some ''c2'', doc_id = Some ''d'', version_id = Some ''v'',
             chunk_text = Some (''[[META type=text page=2]]'' @ CHR 0x0A # ''beta''),
             score = None\<rparr>;
       svc = \<lparr>call_chat = (\<lambda>prompt text. Inr ''[]''),
              json_entities = (\<lambda>raw. []),
              call_embed_text = (\<lambda>text. Inr [1, 0]),
              call_find_entities_by_name_or_alias = (\<lambda>name limit. Inr []),
              call_find_entities_by_embedding = (\<lambda>emb limit min_sim. Inr []),
              call_get_neighbor_entities = (\<lambda>ids limit. Inr []),
              call_list_chunk_ids_by_entities = (\<lambda>ids limit. Inr []),
              call_get_chunks_by_ids = (\<lambda>ids. Inr []),
              call_search_chunks = (\<lambda>text emb top_k. Inr [h1, h2]),
              call_rerank = (\<lambda>query docs top_k. Inl (ServiceError ''ConnectionError'')),
              math_log = (\<lambda>n. 0)\<rparr>;
       cfg = \<lparr>GRAPH_ENTITY_PROMPTS = [(''strict'', ''Return at most 3 entities.'')],
              GRAPH_ENTITY_PROMPT_DEFAULT = ''strict'',
              GRAPH_ENTITY_MIN_SIM = None,
              RERANK_CANDIDATES = 10,
              VECTOR_CHUNK_CANDIDATES = 40,
              GRAPH_CHUNK_CANDIDATES = 20,
              RERANK_ENABLED = True,
              RERANK_MIN_SCORE = Some (4 / 10),
              PDF_TOP_K_CHUNKS = 3,
              PRE_RERANK_MERGE_MAX_CHARS = 9000,
              MAX_PDF_CONTEXT_CHARS = 8000,
              context_cut_marker = CHR 0x0A # ''...''\<rparr>
   in map_option fst (chat_send_retrieval svc (cfg\<lparr>RERANK_ENABLED := False\<rparr>) (Some ''alpha or beta'')
                        False None) = Some [h1, h2]
    \<and> rerank_hits (call_rerank svc) (RERANK_MIN_SCORE cfg) ''alpha or beta'' [h1, h2]
          (PDF_TOP_K_CHUNKS cfg) = Inl (ServiceError ''ConnectionError'')
    \<and> chat_send_retrieval svc cfg (Some ''alpha or beta'') False None
        = Some ([], RetrievalFailed (ServiceError ''ConnectionError''))"
  unfolding Let_def
  apply (rule conjI)
   apply code_simp
  apply (rule conjI)
   apply code_simp
  apply code_simp
  done

end
